theory Spec2Isabelle
  imports Complex_Main "HOL-Library.Word" "HOL-Library.Sublist"
begin

section \<open>Values of the JavaScript runtime\<close>

text \<open>
  The repository holds two server files: \<open>index.ts\<close>, which serves the tools over
  standard input and output (the stdio variant), and a second \<open>index.ts\<close> kept after the
  text of \<open>README.md\<close> (from line 239 on), which serves them over an HTTP event stream
  (the event-stream variant). Line numbers below are those of \<open>index.ts\<close> and, after a
  slash, those of \<open>README.md\<close>.

  The server is TypeScript on Node. Strings are modelled as byte strings (\<open>string\<close>, the
  UTF-8 text), buffers as lists of bytes. A thrown value is an \<open>Error\<close> object carrying
  its \<open>message\<close>; every function that can throw returns \<open>js_error + 'a\<close>, \<open>Inl\<close> being
  the throw. The handlers read \<open>(error as Error).message\<close>, so only the message matters.
\<close>

type_synonym byte = "8 word"
type_synonym bytes = "byte list"

datatype js_error = Error (message: string)

text \<open>A JSON value, as \<open>JSON.parse\<close> and \<open>response.json()\<close> produce it. An object keeps
  its own properties in order; \<open>undefined\<close> is \<open>None\<close> of \<open>jval option\<close>.\<close>

datatype jval =
    JNull
  | JBool bool
  | JNum rat
  | JStr string
  | JArr "jval list"
  | JObj "(string \<times> jval) list"

text \<open>Sequencing of calls that may throw: the first throw ends the \<open>try\<close> block.\<close>

definition bind_e :: "js_error + 'a \<Rightarrow> ('a \<Rightarrow> js_error + 'b) \<Rightarrow> js_error + 'b" where
  "bind_e m k = (case m of Inl e \<Rightarrow> Inl e | Inr x \<Rightarrow> k x)"

text \<open>\<open>v.p\<close> on a value that is not \<open>null\<close>: an object gives its property, every
  other JSON value has no property of the names used here (\<open>undefined\<close>).\<close>

definition get_prop :: "jval \<Rightarrow> string \<Rightarrow> jval option" where
  "get_prop v p = (case v of JObj kvs \<Rightarrow> map_of kvs p | _ \<Rightarrow> None)"

text \<open>Truthiness of \<open>if (v)\<close>, \<open>!v\<close> and \<open>v || d\<close>.\<close>

definition truthy :: "jval option \<Rightarrow> bool" where
  "truthy v = (case v of
       None \<Rightarrow> False
     | Some JNull \<Rightarrow> False
     | Some (JBool b) \<Rightarrow> b
     | Some (JNum n) \<Rightarrow> n \<noteq> 0
     | Some (JStr s) \<Rightarrow> s \<noteq> []
     | Some (JArr _) \<Rightarrow> True
     | Some (JObj _) \<Rightarrow> True)"

text \<open>An environment variable or optional string is falsy when unset or empty.\<close>

definition truthy_str :: "string option \<Rightarrow> bool" where
  "truthy_str v = (case v of None \<Rightarrow> False | Some s \<Rightarrow> s \<noteq> [])"

text \<open>\<open>buf.slice(a, b)\<close> for \<open>0 \<le> a \<le> b\<close>: the bytes from \<open>a\<close> up to \<open>b\<close>, fewer when
  the buffer is shorter.\<close>

definition slice :: "nat \<Rightarrow> nat \<Rightarrow> 'a list \<Rightarrow> 'a list" where
  "slice a b xs = take (b - a) (drop a xs)"

subsection \<open>Printing numbers\<close>

definition digit_char :: "nat \<Rightarrow> char" where
  "digit_char d = ''0123456789'' ! d"

fun decimal :: "nat \<Rightarrow> string" where
  "decimal n = (if n < 10 then [digit_char n] else decimal (n div 10) @ [digit_char (n mod 10)])"

declare decimal.simps [simp del]

definition MAX_SAFE :: nat where
  "MAX_SAFE = 2 ^ 53"

section \<open>Results\<close>

text \<open>A content item \<open>{type, text, language?}\<close>. \<open>JSON.stringify(undefined)\<close> is
  \<open>undefined\<close>, so the text of an item can be missing.\<close>

record content_item =
  item_type :: string
  item_text :: "string option"
  item_language :: "string option"

record tool_result =
  content :: "content_item list"

definition text_item :: "string \<Rightarrow> content_item" where
  "text_item s = \<lparr>item_type = ''text'', item_text = Some s, item_language = None\<rparr>"

text \<open>The \<open>catch (error)\<close> block shared by almost all handlers.\<close>

definition error_result :: "js_error \<Rightarrow> tool_result" where
  "error_result e = \<lparr>content = [text_item (''Error: '' @ message e)]\<rparr>"

section \<open>Data of the libraries the handlers call\<close>

text \<open>A public key is its 32-byte buffer (\<open>toBuffer()\<close>); \<open>equals\<close> is equality.\<close>

datatype pubkey = PublicKey (toBuffer: bytes)

text \<open>What \<open>new PublicKey(...)\<close> is given: a base58 string, a buffer, or a value read
  from parsed JSON (\<open>None\<close> is \<open>undefined\<close>).\<close>

datatype pk_input = PkString string | PkBuffer bytes | PkValue "jval option"

datatype keypair = Keypair (keypair_publicKey: pubkey) (keypair_secretKey: bytes)

record account_info =
  data :: bytes
  owner :: pubkey
  lamports :: rat
  executable :: bool

text \<open>The parts of an Anchor IDL the handlers read. The type of an argument is a name
  such as \<open>"u64"\<close> or an object such as \<open>{vec: "u8"}\<close>; \<open>isSigner\<close> and \<open>isMut\<close> are
  absent on a nested account group.\<close>

datatype idl_type = IdlPrimitive string | IdlObject jval

record idl_account_item =
  acc_name :: string
  isSigner :: "bool option"
  isMut :: "bool option"

record idl_field =
  arg_name :: string
  arg_type :: idl_type

record idl_instruction =
  ix_name :: string
  ix_accounts :: "idl_account_item list"
  ix_args :: "idl_field list"

record idl =
  idl_instructions :: "idl_instruction list"
  idl_accounts :: "string list option"

datatype account_meta =
  AccountMeta (meta_pubkey: pubkey) (meta_isSigner: bool) (meta_isWritable: bool)

record transaction_instruction =
  ix_keys :: "account_meta list"
  ix_programId :: pubkey
  ix_data :: bytes

record transaction =
  tx_instructions :: "transaction_instruction list"
  tx_feePayer :: "pubkey option"
  tx_recentBlockhash :: "string option"
  tx_signatures :: "(pubkey \<times> bytes) list"

record http_init =
  http_method :: string
  http_headers :: "(string \<times> string) list"
  http_body :: string

record http_response =
  resp_ok :: bool
  resp_status :: rat
  resp_json :: "js_error + jval"
  resp_text :: "js_error + string"

datatype query_parameter = QueryText string string | QueryNumber string rat

record run_query_args =
  queryId :: nat
  query_parameters :: "query_parameter list"

text \<open>What \<open>createCPI\<close> of \<open>./solanaprogram\<close> resolves to: an object with an \<open>error\<close>
  key, or one with optional \<open>cpiExample\<close>, \<open>programIdl\<close> and \<open>cluster\<close>.\<close>

datatype cpi_result =
    CpiError "string option"
  | CpiExample (cpiExample: "string option") (programIdl: "jval option") (cluster: "string option")

record signature_info =
  blockTime :: "rat option"

section \<open>The world outside the handlers\<close>

text \<open>
  Everything a handler calls and does not define: the process environment, built-ins of
  the runtime, \<open>@solana/web3.js\<close>, Anchor, the Dune client, \<open>fetch\<close> and
  \<open>./solanaprogram\<close>. Each is a field of the world the handler runs in; a call that can
  throw returns \<open>js_error + 'a\<close>. \<open>connection_f\<close> is \<open>connection.f\<close>,
  \<open>JSON_stringify2 v\<close> is \<open>JSON.stringify(v, null, 2)\<close>. \<open>logToFile\<close> only appends to a
  file that is never read and swallows its failures; it is left out.
\<close>

record world =
  HELIUS_RPC_URL :: "string option"
  HELIUS_API_KEY :: "string option"
  DUNE_API_KEY :: "string option"
  PAYER_PRIVATE_KEY :: "string option"
  Number_toString :: "rat \<Rightarrow> string"
  TypeError_message :: "string \<Rightarrow> string"
  JSON_parse :: "string \<Rightarrow> js_error + jval"
  JSON_stringify :: "jval \<Rightarrow> string"
  JSON_stringify2 :: "jval \<Rightarrow> string"
  Buffer_toString :: "bytes \<Rightarrow> string"
  Buffer_toString_base64 :: "bytes \<Rightarrow> string"
  Buffer_from_base64 :: "string \<Rightarrow> bytes"
  toLowerCase :: "string \<Rightarrow> string"
  charAt0 :: "string \<Rightarrow> string"
  Date_toISOString :: "rat \<Rightarrow> js_error + string"
  fetch :: "string \<Rightarrow> http_init option \<Rightarrow> js_error + http_response"
  Promise_all_rejection :: "js_error list \<Rightarrow> js_error"
  new_PublicKey :: "pk_input \<Rightarrow> js_error + pubkey"
  isOnCurve :: "pubkey \<Rightarrow> bool"
  findProgramAddress :: "bytes list \<Rightarrow> pubkey \<Rightarrow> js_error + pubkey"
  Keypair_fromSecretKey :: "bytes \<Rightarrow> js_error + keypair"
  partialSign :: "transaction \<Rightarrow> keypair \<Rightarrow> js_error + transaction"
  serialize :: "transaction \<Rightarrow> bool \<Rightarrow> js_error + bytes"
  Transaction_from :: "bytes \<Rightarrow> js_error + transaction"
  stringify_account_info :: "account_info option \<Rightarrow> string"
  stringify_transaction :: "transaction \<Rightarrow> string"
  connection_getAccountInfo :: "pubkey \<Rightarrow> js_error + account_info option"
  connection_getBalance :: "pubkey \<Rightarrow> js_error + rat"
  connection_getMinimumBalanceForRentExemption :: "rat \<Rightarrow> js_error + rat"
  connection_getParsedTransaction :: "string \<Rightarrow> js_error + jval"
  connection_getSignaturesForAddress :: "pubkey \<Rightarrow> nat \<Rightarrow> js_error + signature_info list"
  connection_getLatestBlockhash :: "js_error + string"
  connection_simulateTransaction :: "transaction \<Rightarrow> js_error + jval"
  sendAndConfirmRawTransaction :: "bytes \<Rightarrow> bool \<Rightarrow> js_error + string"
  anchor_fetchIdl :: "pubkey \<Rightarrow> js_error + idl option"
  new_Program :: "idl \<Rightarrow> pubkey \<Rightarrow> js_error + unit"
  instruction_encode :: "idl \<Rightarrow> string \<Rightarrow> js_error + bytes"
  accountDiscriminator :: "string \<Rightarrow> bytes"
  bs58_encode :: "bytes \<Rightarrow> string"
  bs58_decode :: "string \<Rightarrow> js_error + bytes"
  new_BN :: "jval option \<Rightarrow> js_error + int"
  stringify_idl :: "idl \<Rightarrow> string"
  client_runQuery :: "string \<Rightarrow> run_query_args \<Rightarrow> js_error + jval option"
  solanaprogram_createCPI :: "string \<Rightarrow> string \<Rightarrow> js_error + cpi_result"

subsection \<open>Built-ins with a fixed meaning\<close>

text \<open>\<open>`${x}`\<close> of a number: the decimal digits when \<open>x\<close> is an integer below \<open>2^53\<close> in
  absolute value (there the double is exact); otherwise the text is the runtime's
  rendering of a double, which is not modelled and is left to \<open>Number_toString\<close>.\<close>

definition number_text :: "world \<Rightarrow> rat \<Rightarrow> string" where
  "number_text w x =
     (let i = \<lfloor>x\<rfloor> in
      if of_int i = x \<and> \<bar>i\<bar> < int MAX_SAFE
      then (if i < 0 then ''-'' @ decimal (nat (- i)) else decimal (nat i))
      else Number_toString w x)"

definition bool_text :: "bool \<Rightarrow> string" where
  "bool_text b = (if b then ''true'' else ''false'')"

definition LAMPORTS_PER_SOL :: rat where
  "LAMPORTS_PER_SOL = 1000000000"

text \<open>\<open>Buffer.from(s)\<close> of an ASCII literal: its bytes.\<close>

definition Buffer_from :: "string \<Rightarrow> bytes" where
  "Buffer_from s = map of_char s"

text \<open>\<open>pk.toBase58()\<close> and \<open>pk.toString()\<close>.\<close>

definition toBase58 :: "world \<Rightarrow> pubkey \<Rightarrow> string" where
  "toBase58 w pk = bs58_encode w (toBuffer pk)"

text \<open>\<open>xs.join(sep)\<close> of strings.\<close>

fun join :: "string \<Rightarrow> string list \<Rightarrow> string" where
  "join sep [] = []"
| "join sep [x] = x"
| "join sep (x # y # ys) = x @ sep @ join sep (y # ys)"

text \<open>\<open>v.p\<close>: reading a property of \<open>null\<close> throws a \<open>TypeError\<close>, whose message is
  the engine's.\<close>

definition member :: "world \<Rightarrow> jval \<Rightarrow> string \<Rightarrow> js_error + jval option" where
  "member w v p =
     (case v of
        JNull \<Rightarrow> Inl (Error (TypeError_message w p))
      | _ \<Rightarrow> Inr (get_prop v p))"

text \<open>\<open>const v = process.env.X; if (!v) ...\<close>: the value when it is set and not empty.\<close>

definition env_value :: "string option \<Rightarrow> string option" where
  "env_value v = (if truthy_str v then v else None)"

section \<open>Tool handlers\<close>

text \<open>
  A handler is \<open>async (args) => { try { ... } catch (error) { ... } }\<close>. The \<open>try\<close> block
  is a function \<open>f_try\<close> into \<open>js_error + tool_result\<close>; the handler is \<open>try_catch\<close>
  of it and of its \<open>catch\<close> block. Where the two server files (the stdio \<open>index.ts\<close> and
  the event-stream variant) differ, the definitions carry \<open>_stdio\<close> and \<open>_sse\<close>.
\<close>

definition try_catch :: "js_error + tool_result \<Rightarrow> (js_error \<Rightarrow> tool_result) \<Rightarrow> tool_result" where
  "try_catch body handler = (case body of Inr r \<Rightarrow> r | Inl e \<Rightarrow> handler e)"

subsection \<open>getAccountInfo, getBalance, getMinimumBalanceForRentExemption, getTransaction\<close>

text \<open>Lines 47-138 / 363-454; the two files agree.\<close>

definition getAccountInfo_try :: "world \<Rightarrow> string \<Rightarrow> js_error + tool_result" where
  "getAccountInfo_try w publicKey =
     bind_e (new_PublicKey w (PkString publicKey)) (\<lambda>pubkey.
     bind_e (connection_getAccountInfo w pubkey) (\<lambda>accountInfo.
     Inr \<lparr>content = [text_item (stringify_account_info w accountInfo)]\<rparr>))"

definition getAccountInfo :: "world \<Rightarrow> string \<Rightarrow> tool_result" where
  "getAccountInfo w publicKey = try_catch (getAccountInfo_try w publicKey) error_result"

definition getBalance_try :: "world \<Rightarrow> string \<Rightarrow> js_error + tool_result" where
  "getBalance_try w publicKey =
     bind_e (new_PublicKey w (PkString publicKey)) (\<lambda>pubkey.
     bind_e (connection_getBalance w pubkey) (\<lambda>balance.
     Inr \<lparr>content = [text_item
       (number_text w (balance / LAMPORTS_PER_SOL) @ '' SOL ('' @ number_text w balance
          @ '' lamports)'')]\<rparr>))"

definition getBalance :: "world \<Rightarrow> string \<Rightarrow> tool_result" where
  "getBalance w publicKey = try_catch (getBalance_try w publicKey) error_result"

definition getMinimumBalanceForRentExemption_try :: "world \<Rightarrow> rat \<Rightarrow> js_error + tool_result" where
  "getMinimumBalanceForRentExemption_try w dataSize =
     bind_e (connection_getMinimumBalanceForRentExemption w dataSize) (\<lambda>minBalance.
     Inr \<lparr>content = [text_item
       (number_text w (minBalance / LAMPORTS_PER_SOL) @ '' SOL ('' @ number_text w minBalance
          @ '' lamports)'')]\<rparr>)"

definition getMinimumBalanceForRentExemption :: "world \<Rightarrow> rat \<Rightarrow> tool_result" where
  "getMinimumBalanceForRentExemption w dataSize =
     try_catch (getMinimumBalanceForRentExemption_try w dataSize) error_result"

definition getTransaction_try :: "world \<Rightarrow> string \<Rightarrow> js_error + tool_result" where
  "getTransaction_try w signature =
     bind_e (connection_getParsedTransaction w signature) (\<lambda>transaction.
     Inr \<lparr>content = [text_item (JSON_stringify2 w transaction)]\<rparr>)"

definition getTransaction :: "world \<Rightarrow> string \<Rightarrow> tool_result" where
  "getTransaction w signature = try_catch (getTransaction_try w signature) error_result"

subsection \<open>getPriorityFee\<close>

text \<open>Lines 141-179 / 457-514. The stdio variant reads \<open>HELIUS_RPC_URL\<close> and throws when it is
  not set; the event-stream variant reads \<open>HELIUS_API_KEY\<close> and returns the error text
  itself.\<close>

definition priority_fee_request :: "string \<Rightarrow> (string \<times> jval) list \<Rightarrow> jval" where
  "priority_fee_request tx options =
     JObj [(''jsonrpc'', JStr ''2.0''), (''id'', JStr ''1''),
           (''method'', JStr ''getPriorityFeeEstimate''),
           (''params'', JArr [JObj [(''transaction'', JStr tx), (''options'', JObj options)]])]"

definition getPriorityFee_stdio_try :: "world \<Rightarrow> string \<Rightarrow> js_error + tool_result" where
  "getPriorityFee_stdio_try w serealizedTransaction =
     (case env_value (HELIUS_RPC_URL w) of
        None \<Rightarrow> Inl (Error ''HELIUS_RPC_URL environment variable is not set'')
      | Some HeliusURL \<Rightarrow>
          bind_e (fetch w HeliusURL (Some
            \<lparr>http_method = ''POST'',
             http_headers = [(''Content-Type'', ''application/json'')],
             http_body = JSON_stringify w (priority_fee_request serealizedTransaction
               [(''includeAllPriorityFeeLevels'', JBool True)])\<rparr>)) (\<lambda>response.
          bind_e (resp_json response) (\<lambda>result.
          bind_e (member w result ''result'') (\<lambda>priorityFee.
          Inr \<lparr>content = [\<lparr>item_type = ''text'',
                            item_text = map_option (JSON_stringify2 w) priorityFee,
                            item_language = None\<rparr>]\<rparr>))))"

definition getPriorityFee_stdio :: "world \<Rightarrow> string \<Rightarrow> tool_result" where
  "getPriorityFee_stdio w serealizedTransaction =
     try_catch (getPriorityFee_stdio_try w serealizedTransaction) error_result"

definition getPriorityFee_sse_try :: "world \<Rightarrow> string \<Rightarrow> js_error + tool_result" where
  "getPriorityFee_sse_try w serializedTransaction =
     (case env_value (HELIUS_API_KEY w) of
        None \<Rightarrow>
          Inr \<lparr>content = [text_item ''Error: HELIUS_API_KEY environment variable is not set'']\<rparr>
      | Some key \<Rightarrow>
          bind_e (fetch w (''https://mainnet.helius-rpc.com/?api-key='' @ key) (Some
            \<lparr>http_method = ''POST'',
             http_headers = [(''Content-Type'', ''application/json'')],
             http_body = JSON_stringify w (priority_fee_request serializedTransaction
               [(''includeAllPriorityFeeLevels'', JBool True),
                (''transactionEncoding'', JStr ''base64'')])\<rparr>)) (\<lambda>response.
          bind_e (resp_json response) (\<lambda>result.
          bind_e (member w result ''result'') (\<lambda>priorityFee.
          Inr \<lparr>content = [text_item
            (case priorityFee of
               Some fee \<Rightarrow>
                 if truthy priorityFee then JSON_stringify2 w fee
                 else ''No priority fee data available'' @ JSON_stringify2 w result
             | None \<Rightarrow> ''No priority fee data available'' @ JSON_stringify2 w result)]\<rparr>))))"

definition getPriorityFee_sse :: "world \<Rightarrow> string \<Rightarrow> tool_result" where
  "getPriorityFee_sse w serializedTransaction =
     try_catch (getPriorityFee_sse_try w serializedTransaction) error_result"

subsection \<open>generateSecurityTxt\<close>

text \<open>Lines 180-226 / 516-562; the two files agree.\<close>

text \<open>The validated input, in the order of the schema's keys. An optional key that was
  not given is \<open>undefined\<close> and is filtered out of \<open>Object.entries(input)\<close>.\<close>

record security_txt_input =
  st_name :: string
  st_project_url :: string
  st_contacts :: string
  st_policy :: string
  st_preferred_languages :: "string option"
  st_encryption :: "string option"
  st_source_code :: "string option"
  st_source_release :: "string option"
  st_source_revision :: "string option"
  st_auditors :: "string option"
  st_acknowledgements :: "string option"
  st_expiry :: "string option"

definition Object_entries :: "security_txt_input \<Rightarrow> (string \<times> string option) list" where
  "Object_entries input =
     [(''name'', Some (st_name input)),
      (''project_url'', Some (st_project_url input)),
      (''contacts'', Some (st_contacts input)),
      (''policy'', Some (st_policy input)),
      (''preferred_languages'', st_preferred_languages input),
      (''encryption'', st_encryption input),
      (''source_code'', st_source_code input),
      (''source_release'', st_source_release input),
      (''source_revision'', st_source_revision input),
      (''auditors'', st_auditors input),
      (''acknowledgements'', st_acknowledgements input),
      (''expiry'', st_expiry input)]"

text \<open>In the template literals \<open>\0\<close> is the NUL character and \<open>\\0\<close> is a backslash
  followed by the digit 0.\<close>

definition security_txt_content :: "security_txt_input \<Rightarrow> string" where
  "security_txt_content input =
     concat (map (\<lambda>(key, v). key @ [CHR 0x00]
                    @ (case v of Some s \<Rightarrow> s | None \<Rightarrow> ''undefined'') @ [CHR 0x00])
       (filter (\<lambda>(_, v). v \<noteq> None) (Object_entries input)))"

definition securityTxt :: "security_txt_input \<Rightarrow> string" where
  "securityTxt input =
     [CHR 0x22] @ ''=======BEGIN SECURITY.TXT V1======='' @ [CHR 0x5C, CHR ''0'']
       @ security_txt_content input
       @ ''=======END SECURITY.TXT V1======='' @ [CHR 0x5C, CHR ''0'', CHR 0x22]"

definition security_txt_macro :: "security_txt_input \<Rightarrow> string" where
  \<open>security_txt_macro input =
     join [CHR 0x0A]
       [''#[macro_export]'',
        ''  macro_rules! security_txt {'',
        ''      () => {'',
        ''          #[cfg_attr(target_arch = "bpf", link_section = ".security.txt")]'',
        ''          #[allow(dead_code)]'',
        ''          #[no_mangle]'',
        ''          pub static security_txt: &str = '' @ securityTxt input @ '';'',
        ''      };'',
        ''  }'',
        ''  '',
        ''  security_txt!();'']\<close>

text \<open>This handler has no \<open>try\<close>/\<open>catch\<close>; nothing in it throws.\<close>

definition generateSecurityTxt :: "security_txt_input \<Rightarrow> tool_result" where
  "generateSecurityTxt input =
     \<lparr>content =
        [text_item ''Generated security.txt content:'',
         text_item (securityTxt input),
         text_item ''Generated macro:'',
         text_item (security_txt_macro input)]\<rparr>"

subsection \<open>getProgramIdl\<close>

text \<open>Lines 227-302 / 565-640; the two files agree.\<close>

definition SHANK_PROGRAM :: string where
  "SHANK_PROGRAM = ''SHANKxjhDKxhCjgSEhUvZy5uW8Xb4VuKLyAXJVZbDGr''"

definition NO_IDL_FOUND :: tool_result where
  "NO_IDL_FOUND = \<lparr>content = [text_item ''No IDL found for the given program ID.'']\<rparr>"

text \<open>Method 3: the Shank IDL account.\<close>

definition getProgramIdl_method3 :: "world \<Rightarrow> pubkey \<Rightarrow> js_error + tool_result" where
  "getProgramIdl_method3 w programPublicKey =
     bind_e (new_PublicKey w (PkString SHANK_PROGRAM)) (\<lambda>shank.
     bind_e (findProgramAddress w [Buffer_from ''shank:idl'', toBuffer programPublicKey] shank)
       (\<lambda>shankIdlAddress.
     bind_e (connection_getAccountInfo w shankIdlAddress) (\<lambda>shankIdlAccount.
       case shankIdlAccount of
         Some account \<Rightarrow>
           bind_e (JSON_parse w (Buffer_toString w (data account))) (\<lambda>idl.
           Inr \<lparr>content = [text_item (JSON_stringify2 w idl)]\<rparr>)
       | None \<Rightarrow> Inr NO_IDL_FOUND)))"

text \<open>Method 2: the account at the address derived from \<open>"anchor:idl"\<close>; its data after
  the 8-byte discriminator is parsed as JSON.\<close>

definition getProgramIdl_method2 :: "world \<Rightarrow> pubkey \<Rightarrow> js_error + tool_result" where
  "getProgramIdl_method2 w programPublicKey =
     bind_e (findProgramAddress w [Buffer_from ''anchor:idl'', toBuffer programPublicKey]
               programPublicKey) (\<lambda>idlAddress.
     bind_e (connection_getAccountInfo w idlAddress) (\<lambda>idlAccount.
       case idlAccount of
         Some account \<Rightarrow>
           bind_e (JSON_parse w (Buffer_toString w (drop 8 (data account)))) (\<lambda>idl.
           Inr \<lparr>content = [text_item (JSON_stringify2 w idl)]\<rparr>)
       | None \<Rightarrow> getProgramIdl_method3 w programPublicKey))"

text \<open>Method 1 is in a \<open>try\<close> of its own whose \<open>catch\<close> only logs: when \<open>fetchIdl\<close>
  throws or gives \<open>null\<close>, the handler goes on with method 2.\<close>

definition getProgramIdl_try :: "world \<Rightarrow> string \<Rightarrow> js_error + tool_result" where
  "getProgramIdl_try w programId =
     bind_e (new_PublicKey w (PkString programId)) (\<lambda>programPublicKey.
       case anchor_fetchIdl w programPublicKey of
         Inr (Some idl) \<Rightarrow> Inr \<lparr>content = [text_item (stringify_idl w idl)]\<rparr>
       | Inr None \<Rightarrow> getProgramIdl_method2 w programPublicKey
       | Inl e \<Rightarrow> getProgramIdl_method2 w programPublicKey)"


subsection \<open>createGPAFilters\<close>

text \<open>Lines 303-362 / 643-702; the two files agree.\<close>

definition createGPAFilters_try :: "world \<Rightarrow> string \<Rightarrow> js_error + tool_result" where
  "createGPAFilters_try w programId =
     bind_e (new_PublicKey w (PkString programId)) (\<lambda>programPublicKey.
     bind_e (anchor_fetchIdl w programPublicKey) (\<lambda>idl.
       case idl of
         None \<Rightarrow> Inl (Error ''IDL not found for the given program ID'')
       | Some idl \<Rightarrow>
           (let accountTypes = (case idl_accounts idl of None \<Rightarrow> [] | Some ts \<Rightarrow> ts);
                filters = map (\<lambda>account.
                  JObj [(''memcmp'',
                    JObj [(''offset'', JNum 0),
                          (''bytes'', JStr (bs58_encode w (accountDiscriminator w account)))])])
                  accountTypes
            in Inr \<lparr>content =
                 [text_item ''GPA Filters:'',
                  text_item (JSON_stringify2 w (JArr filters)),
                  text_item (CHR 0x0A # ''Account Types:''),
                  text_item (JSON_stringify2 w (JArr (map JStr accountTypes)))]\<rparr>)))"

definition createGPAFilters :: "world \<Rightarrow> string \<Rightarrow> tool_result" where
  "createGPAFilters w programId = try_catch (createGPAFilters_try w programId) error_result"

subsection \<open>testProgramIdl\<close>

text \<open>Lines 364-486 / 705-863. The two files differ in the check of \<open>PAYER_PRIVATE_KEY\<close> and
  in the \<open>catch\<close> block.\<close>

text \<open>\<open>`${v}`\<close> of a parsed JSON value. An object that has a property \<open>toString\<close> of its
  own cannot be converted (the property is not callable) and the conversion throws; an
  array joins the texts of its elements with commas, \<open>null\<close> giving the empty text.\<close>

fun template_text :: "world \<Rightarrow> jval \<Rightarrow> js_error + string"
  and template_texts :: "world \<Rightarrow> jval list \<Rightarrow> js_error + string list" where
  "template_text w JNull = Inr ''null''"
| "template_text w (JBool b) = Inr (bool_text b)"
| "template_text w (JNum n) = Inr (number_text w n)"
| "template_text w (JStr s) = Inr s"
| "template_text w (JArr xs) = bind_e (template_texts w xs) (\<lambda>ts. Inr (join '','' ts))"
| "template_text w (JObj kvs) =
     (if ''toString'' \<in> set (map fst kvs)
      then Inl (Error (TypeError_message w ''toString''))
      else Inr ''[object Object]'')"
| "template_texts w [] = Inr []"
| "template_texts w (x # xs) =
     bind_e (if x = JNull then Inr [] else template_text w x) (\<lambda>t.
     bind_e (template_texts w xs) (\<lambda>ts. Inr (t # ts)))"

definition template_text_opt :: "world \<Rightarrow> jval option \<Rightarrow> js_error + string" where
  "template_text_opt w v = (case v of None \<Rightarrow> Inr ''undefined'' | Some x \<Rightarrow> template_text w x)"

definition idl_type_text :: "world \<Rightarrow> idl_type \<Rightarrow> js_error + string" where
  "idl_type_text w t = (case t of IdlPrimitive s \<Rightarrow> Inr s | IdlObject v \<Rightarrow> template_text w v)"

text \<open>\<open>xs.map(f)\<close> with an \<open>f\<close> that may throw: the first throw ends the loop.\<close>

fun map_e :: "('a \<Rightarrow> js_error + 'b) \<Rightarrow> 'a list \<Rightarrow> js_error + 'b list" where
  "map_e f [] = Inr []"
| "map_e f (x # xs) = bind_e (f x) (\<lambda>y. bind_e (map_e f xs) (\<lambda>ys. Inr (y # ys)))"

text \<open>\<open>xs.find((a) => a.name === name)\<close> on the elements of a parsed array: reading
  \<open>a.name\<close> of a \<open>null\<close> element throws.\<close>

fun find_named :: "world \<Rightarrow> jval list \<Rightarrow> string \<Rightarrow> js_error + jval option" where
  "find_named w [] n = Inr None"
| "find_named w (a # as) n =
     (if a = JNull then Inl (Error (TypeError_message w ''a.name''))
      else if get_prop a ''name'' = Some (JStr n) then Inr (Some a)
      else find_named w as n)"

text \<open>\<open>inputData.p.find((a) => a.name === name)\<close>: only an array has \<open>find\<close>.\<close>

definition find_in :: "world \<Rightarrow> jval \<Rightarrow> string \<Rightarrow> string \<Rightarrow> js_error + jval option" where
  "find_in w inputData p n =
     bind_e (member w inputData p) (\<lambda>xs.
       case xs of
         Some (JArr as) \<Rightarrow> find_named w as n
       | _ \<Rightarrow> Inl (Error (TypeError_message w (p @ ''.find''))))"

definition pk_input_of :: "jval option \<Rightarrow> pk_input" where
  "pk_input_of v = (case v of Some (JStr s) \<Rightarrow> PkString s | _ \<Rightarrow> PkValue v)"

text \<open>One element of \<open>ix.accounts.map(...)\<close>: the account meta of a declared account.\<close>

definition account_key :: "world \<Rightarrow> keypair \<Rightarrow> jval \<Rightarrow> idl_account_item \<Rightarrow> js_error + account_meta" where
  "account_key w payer inputData acc =
     bind_e (find_in w inputData ''accounts'' (acc_name acc)) (\<lambda>accountInfo.
     bind_e (case accountInfo of
               None \<Rightarrow> Inr (keypair_publicKey payer)
             | Some a \<Rightarrow>
                 if truthy (get_prop a ''pubkey'')
                 then new_PublicKey w (pk_input_of (get_prop a ''pubkey''))
                 else Inr (keypair_publicKey payer)) (\<lambda>pubkey.
     Inr (AccountMeta pubkey
            (case isSigner acc of Some b \<Rightarrow> b | None \<Rightarrow> False)
            (case isMut acc of Some b \<Rightarrow> b | None \<Rightarrow> False))))"

datatype arg_value = ArgBN int | ArgPublicKey pubkey | ArgRaw "jval option"

text \<open>One element of \<open>ix.args.map(...)\<close>. The log line is built first, and building it
  converts the type and the value to text, which can throw.\<close>

definition arg_value_of :: "world \<Rightarrow> jval \<Rightarrow> idl_field \<Rightarrow> js_error + arg_value" where
  "arg_value_of w inputData arg =
     bind_e (find_in w inputData ''args'' (arg_name arg)) (\<lambda>inputArg.
     (let v = (case inputArg of None \<Rightarrow> None | Some a \<Rightarrow> get_prop a ''value'') in
     bind_e (idl_type_text w (arg_type arg)) (\<lambda>_.
     bind_e (template_text_opt w v) (\<lambda>_.
       if arg_type arg = IdlPrimitive ''u64'' \<or> arg_type arg = IdlPrimitive ''i64''
       then bind_e (new_BN w v) (\<lambda>bnValue. Inr (ArgBN bnValue))
       else if arg_type arg = IdlPrimitive ''publicKey''
       then bind_e (new_PublicKey w (pk_input_of v)) (\<lambda>pk. Inr (ArgPublicKey pk))
       else Inr (ArgRaw v)))))"

text \<open>\<open>bn.toArrayLike(Buffer, "le", 8)\<close> of bn.js: the magnitude, least significant byte
  first, in exactly 8 bytes; an assertion fails when it needs more.\<close>

definition le_bytes :: "nat \<Rightarrow> nat \<Rightarrow> bytes" where
  "le_bytes len n = map (\<lambda>i. of_nat (n div 256 ^ i)) [0..<len]"


definition toArrayLike_le8 :: "int \<Rightarrow> js_error + bytes" where
  "toArrayLike_le8 n =
     (if \<bar>n\<bar> < 2 ^ 64 then Inr (le_bytes 8 (nat \<bar>n\<bar>))
      else Inl (Error ''byte array longer than desired length''))"

text \<open>\<open>(args[0] as BN).toArrayLike(Buffer, "le", 8)\<close>: only a \<open>BN\<close> has the method.\<close>

definition expirationSlotBuffer :: "world \<Rightarrow> arg_value list \<Rightarrow> js_error + bytes" where
  "expirationSlotBuffer w args =
     (case args of
        ArgBN n # _ \<Rightarrow> toArrayLike_le8 n
      | _ \<Rightarrow> Inl (Error (TypeError_message w ''args[0].toArrayLike'')))"

text \<open>From \<open>const keys = ...\<close> to \<open>new TransactionInstruction({keys, programId, data})\<close>.\<close>

definition build_instruction ::
  "world \<Rightarrow> keypair \<Rightarrow> pubkey \<Rightarrow> idl \<Rightarrow> string \<Rightarrow> jval \<Rightarrow> idl_instruction
     \<Rightarrow> js_error + transaction_instruction" where
  "build_instruction w payer programPublicKey idl instructionName inputData ix =
     bind_e (map_e (account_key w payer inputData) (ix_accounts ix)) (\<lambda>keys.
     bind_e (map_e (arg_value_of w inputData) (ix_args ix)) (\<lambda>args.
     bind_e (instruction_encode w idl instructionName) (\<lambda>encoded.
     bind_e (expirationSlotBuffer w args) (\<lambda>slot.
     Inr \<lparr>ix_keys = keys, ix_programId = programPublicKey,
          ix_data = take 8 encoded @ slot\<rparr>))))"

text \<open>The handler after the check of \<open>PAYER_PRIVATE_KEY\<close>, the same in both files.\<close>

definition testProgramIdl_main ::
  "world \<Rightarrow> string \<Rightarrow> string \<Rightarrow> string \<Rightarrow> string \<Rightarrow> js_error + tool_result" where
  "testProgramIdl_main w payerPrivateKey programId inputJson instructionName =
     bind_e (bs58_decode w payerPrivateKey) (\<lambda>secretKey.
     bind_e (Keypair_fromSecretKey w secretKey) (\<lambda>payer.
     bind_e (new_PublicKey w (PkString programId)) (\<lambda>programPublicKey.
     bind_e (anchor_fetchIdl w programPublicKey) (\<lambda>fetched.
       case fetched of
         None \<Rightarrow> Inr NO_IDL_FOUND
       | Some idl \<Rightarrow>
           bind_e (JSON_parse w inputJson) (\<lambda>inputData.
           bind_e (new_Program w idl programPublicKey) (\<lambda>_.
             case find (\<lambda>ix. ix_name ix = instructionName) (idl_instructions idl) of
               None \<Rightarrow>
                 Inr \<lparr>content = [text_item
                   (''Instruction '' @ [CHR 0x27] @ instructionName @ [CHR 0x27]
                      @ '' not found in IDL.'')]\<rparr>
             | Some ix \<Rightarrow>
                 bind_e (build_instruction w payer programPublicKey idl instructionName
                           inputData ix) (\<lambda>instruction.
                 bind_e (connection_simulateTransaction w
                           \<lparr>tx_instructions = [instruction],
                            tx_feePayer = Some (keypair_publicKey payer),
                            tx_recentBlockhash = None, tx_signatures = []\<rparr>) (\<lambda>simulation.
                 Inr \<lparr>content = [text_item ''Simulation result:'',
                                  text_item (JSON_stringify2 w simulation)]\<rparr>))))))))"

definition testProgramIdl_stdio_try ::
  "world \<Rightarrow> string \<Rightarrow> string \<Rightarrow> string \<Rightarrow> js_error + tool_result" where
  "testProgramIdl_stdio_try w programId inputJson instructionName =
     (case env_value (PAYER_PRIVATE_KEY w) of
        None \<Rightarrow> Inl (Error ''PAYER_PRIVATE_KEY not found in environment variables'')
      | Some payerPrivateKey \<Rightarrow>
          testProgramIdl_main w payerPrivateKey programId inputJson instructionName)"

definition testProgramIdl_stdio :: "world \<Rightarrow> string \<Rightarrow> string \<Rightarrow> string \<Rightarrow> tool_result" where
  "testProgramIdl_stdio w programId inputJson instructionName =
     try_catch (testProgramIdl_stdio_try w programId inputJson instructionName) error_result"

definition testProgramIdl_sse_try ::
  "world \<Rightarrow> string \<Rightarrow> string \<Rightarrow> string \<Rightarrow> js_error + tool_result" where
  "testProgramIdl_sse_try w programId inputJson instructionName =
     (case env_value (PAYER_PRIVATE_KEY w) of
        None \<Rightarrow> Inr NO_IDL_FOUND
      | Some payerPrivateKey \<Rightarrow>
          testProgramIdl_main w payerPrivateKey programId inputJson instructionName)"

text \<open>The \<open>catch\<close> block of the event-stream variant adds two items after the error.\<close>

definition EXPECTED_INPUT_HELP :: string where
  \<open>EXPECTED_INPUT_HELP =
     join [CHR 0x0A]
       [[],
        ''      The input JSON should be a string containing a JSON object with two main properties:'',
        ''      '',
        ''      1. "accounts": An array of account objects, each containing:'',
        ''         - "name": The name of the account as specified in the instruction'',
        ''         - "pubkey": The public key of the account as a base58 encoded string'',
        ''      '',
        ''      2. "args": An array of argument objects, each containing:'',
        ''         - "name": The name of the argument as specified in the instruction'',
        ''         - "value": The value of the argument'',
        ''         - "type" (optional): The type of the argument (e.g., "u64", "i64", "publicKey")'',
        ''      '',
        ''      Example structure:'',
        ''      {'',
        ''        "accounts": ['',
        ''          { "name": "accountName1", "pubkey": "base58EncodedPublicKey1" },'',
        ''          { "name": "accountName2", "pubkey": "base58EncodedPublicKey2" }'',
        ''        ],'',
        ''        "args": ['',
        ''          { "name": "argName1", "value": "argValue1", "type": "argType1" },'',
        ''          { "name": "argName2", "value": "argValue2", "type": "argType2" }'',
        ''        ]'',
        ''      }'',
        ''      '',
        ''      Ensure that the account names and argument names match those specified in the instruction'' @ [CHR 0x27] @ ''s IDL.'',
        ''          '']\<close>

definition testProgramIdl_sse_catch :: "js_error \<Rightarrow> tool_result" where
  "testProgramIdl_sse_catch e =
     \<lparr>content = [text_item (''Error: '' @ message e),
                 text_item ''Expected input JSON structure:'',
                 text_item EXPECTED_INPUT_HELP]\<rparr>"

definition testProgramIdl_sse :: "world \<Rightarrow> string \<Rightarrow> string \<Rightarrow> string \<Rightarrow> tool_result" where
  "testProgramIdl_sse w programId inputJson instructionName =
     try_catch (testProgramIdl_sse_try w programId inputJson instructionName)
       testProgramIdl_sse_catch"

subsection \<open>lookupProgramAuth\<close>

text \<open>Lines 487-517 / 866-920. The stdio variant throws when an account is missing and reads
  the authority from bytes 0 to 32; the event-stream variant returns the error texts
  itself and reads bytes 13 to 45.\<close>

definition lookupProgramAuth_stdio_try :: "world \<Rightarrow> string \<Rightarrow> js_error + tool_result" where
  "lookupProgramAuth_stdio_try w programId =
     bind_e (new_PublicKey w (PkString programId)) (\<lambda>programPubkey.
     bind_e (connection_getAccountInfo w programPubkey) (\<lambda>programInfo.
       case programInfo of
         None \<Rightarrow> Inl (Error ''Program not found'')
       | Some info \<Rightarrow>
           bind_e (new_PublicKey w (PkBuffer (slice 4 36 (data info)))) (\<lambda>programDataAddress.
           bind_e (connection_getAccountInfo w programDataAddress) (\<lambda>programData.
             case programData of
               None \<Rightarrow> Inl (Error ''Program data not found'')
             | Some pd \<Rightarrow>
                 bind_e (new_PublicKey w (PkBuffer (slice 0 32 (data pd)))) (\<lambda>programAuthority.
                 Inr \<lparr>content = [text_item
                   (''Program Authority: '' @ toBase58 w programAuthority)]\<rparr>)))))"

definition lookupProgramAuth_stdio :: "world \<Rightarrow> string \<Rightarrow> tool_result" where
  "lookupProgramAuth_stdio w programId =
     try_catch (lookupProgramAuth_stdio_try w programId) error_result"

definition lookupProgramAuth_sse_try :: "world \<Rightarrow> string \<Rightarrow> js_error + tool_result" where
  "lookupProgramAuth_sse_try w programId =
     bind_e (new_PublicKey w (PkString programId)) (\<lambda>programPubkey.
     bind_e (connection_getAccountInfo w programPubkey) (\<lambda>programInfo.
       case programInfo of
         None \<Rightarrow>
           Inr \<lparr>content = [text_item
             (''Error: Program with ID '' @ programId @ '' not found.'')]\<rparr>
       | Some info \<Rightarrow>
           bind_e (new_PublicKey w (PkBuffer (slice 4 36 (data info)))) (\<lambda>programDataAddress.
           bind_e (connection_getAccountInfo w programDataAddress) (\<lambda>programData.
             case programData of
               None \<Rightarrow>
                 Inr \<lparr>content = [text_item
                   (''Error: Program data not found for '' @ programId @ ''.'')]\<rparr>
             | Some pd \<Rightarrow>
                 bind_e (new_PublicKey w (PkBuffer (slice 13 45 (data pd))))
                   (\<lambda>upgradeAuthorityAddress.
                 Inr \<lparr>content = [text_item
                   (''Program Authority: '' @ toBase58 w upgradeAuthorityAddress)]\<rparr>)))))"

definition lookupProgramAuth_sse :: "world \<Rightarrow> string \<Rightarrow> tool_result" where
  "lookupProgramAuth_sse w programId =
     try_catch (lookupProgramAuth_sse_try w programId) error_result"

subsection \<open>checkupProgram\<close>

text \<open>Lines 519-581 / 923-985; the two files agree.\<close>

definition BPF_LOADER_UPGRADEABLE :: string where
  "BPF_LOADER_UPGRADEABLE = ''BPFLoaderUpgradeab1e11111111111111111111111''"

definition checkupProgram_try :: "world \<Rightarrow> string \<Rightarrow> js_error + tool_result" where
  "checkupProgram_try w programId =
     bind_e (fetch w (''https://verify.osec.io/status/'' @ programId) None) (\<lambda>response.
     bind_e (new_PublicKey w (PkString programId)) (\<lambda>programPubkey.
     bind_e (connection_getAccountInfo w programPubkey) (\<lambda>programInfo.
       case programInfo of
         None \<Rightarrow> Inl (Error ''Program not found'')
       | Some info \<Rightarrow>
           bind_e (new_PublicKey w (PkBuffer (slice 4 36 (data info)))) (\<lambda>upgradeAuthorityPubkey.
           bind_e (connection_getAccountInfo w upgradeAuthorityPubkey) (\<lambda>upgradeAuthorityInfo.
             case upgradeAuthorityInfo of
               None \<Rightarrow> Inl (Error ''Upgrade authority account not found'')
             | Some authority \<Rightarrow>
                 bind_e (new_PublicKey w (PkString BPF_LOADER_UPGRADEABLE)) (\<lambda>loader.
                 (let isVerified = (owner authority = loader) in
                 bind_e (resp_json response) (\<lambda>securityTxtContent.
                 Inr \<lparr>content =
                   [text_item (''Verified Build: '' @ bool_text isVerified),
                    text_item (''Security.txt: ''
                      @ JSON_stringify2 w securityTxtContent)]\<rparr>))))))))"

definition checkupProgram :: "world \<Rightarrow> string \<Rightarrow> tool_result" where
  "checkupProgram w programId = try_catch (checkupProgram_try w programId) error_result"

subsection \<open>checkProgramDeployment\<close>

text \<open>Lines 612-745 / 988-1121; the two files agree.\<close>

text \<open>Step 2, in a \<open>try\<close> of its own: the fetched IDL (which may be \<open>null\<close>) and the
  report line.\<close>

definition check_idl :: "world \<Rightarrow> pubkey \<Rightarrow> idl option \<times> string" where
  "check_idl w programPubkey =
     (case anchor_fetchIdl w programPubkey of
        Inr idl \<Rightarrow> (idl, ''IDL: Found'')
      | Inl e \<Rightarrow> (None, ''IDL: Not found or not accessible''))"

text \<open>Step 5, in a \<open>try\<close> of its own.\<close>

definition check_security :: "world \<Rightarrow> string \<Rightarrow> string" where
  "check_security w programId =
     (case bind_e (fetch w (''https://verify.osec.io/status/'' @ programId) None) (\<lambda>response.
           bind_e (resp_json response) (\<lambda>osec.
           bind_e (member w osec ''is_verified'') (\<lambda>is_verified.
           Inr (if truthy is_verified
                then ''Security info: '' @ JSON_stringify2 w osec
                else ''Security info: Not found on verify.osec.io''))))
      of Inr line \<Rightarrow> line
       | Inl e \<Rightarrow> ''Security info: Error checking verify.osec.io'')"

text \<open>Step 6: the arguments whose lower-cased name includes one of the keywords.\<close>

definition sensitiveFields :: "world \<Rightarrow> idl \<Rightarrow> idl_field list" where
  "sensitiveFields w idl =
     concat (map (\<lambda>ix.
       filter (\<lambda>arg. list_ex (\<lambda>keyword. sublist keyword (toLowerCase w (arg_name arg)))
                        [''key'', ''secret'', ''password'', ''private''])
         (ix_args ix)) (idl_instructions idl))"

definition check_sensitive :: "world \<Rightarrow> idl option \<Rightarrow> js_error + string list" where
  "check_sensitive w idl =
     (case idl of
        None \<Rightarrow> Inr []
      | Some i \<Rightarrow>
          if sensitiveFields w i \<noteq> []
          then bind_e (map_e (\<lambda>field.
                   bind_e (idl_type_text w (arg_type field)) (\<lambda>t.
                   Inr (''  - '' @ arg_name field @ '' ('' @ t @ '')'')))
                 (sensitiveFields w i)) (\<lambda>lines.
               Inr (''Warning: Potentially sensitive data in instruction arguments:'' # lines))
          else Inr [''No obvious sensitive data found in instruction arguments''])"

text \<open>Step 8: the time of the latest signature.\<close>

definition latestActivity :: "world \<Rightarrow> signature_info list \<Rightarrow> js_error + string" where
  "latestActivity w sigs =
     (case sigs of
        [] \<Rightarrow> Inr ''No recent activity''
      | s # _ \<Rightarrow>
          (case blockTime s of
             None \<Rightarrow> Inr ''No recent activity''
           | Some t \<Rightarrow>
               if t \<noteq> 0 then Date_toISOString w (t * 1000) else Inr ''No recent activity''))"

definition checkProgramDeployment_try :: "world \<Rightarrow> string \<Rightarrow> js_error + tool_result" where
  "checkProgramDeployment_try w programId =
     bind_e (new_PublicKey w (PkString programId)) (\<lambda>programPubkey.
     bind_e (connection_getAccountInfo w programPubkey) (\<lambda>programInfo.
       case programInfo of
         None \<Rightarrow>
           Inr \<lparr>content = [text_item
             (''Error: Program with ID '' @ programId @ '' not found.'')]\<rparr>
       | Some info \<Rightarrow>
          (let (idl, idl_line) = check_idl w programPubkey in
           bind_e (new_PublicKey w (PkBuffer (slice 4 36 (data info)))) (\<lambda>programDataAddress.
           bind_e (connection_getAccountInfo w programDataAddress) (\<lambda>programData.
             case programData of
               None \<Rightarrow>
                 Inr \<lparr>content = [text_item
                   (''Error: Program data not found for '' @ programId @ ''.'')]\<rparr>
             | Some pd \<Rightarrow>
                 bind_e (new_PublicKey w (PkBuffer (slice 13 45 (data pd))))
                   (\<lambda>upgradeAuthorityAddress.
                 bind_e (connection_getAccountInfo w upgradeAuthorityAddress)
                   (\<lambda>upgradeAuthorityInfo.
                 bind_e (case upgradeAuthorityInfo of
                           None \<Rightarrow> Inr None
                         | Some authority \<Rightarrow>
                             bind_e (new_PublicKey w (PkString BPF_LOADER_UPGRADEABLE))
                               (\<lambda>loader. Inr (Some (owner authority = loader))))
                   (\<lambda>isVerified.
                 (let isMultisig = \<not> isOnCurve w upgradeAuthorityAddress;
                      security_line = check_security w programId in
                 bind_e (check_sensitive w idl) (\<lambda>sensitive_lines.
                 bind_e (connection_getSignaturesForAddress w programPubkey 10) (\<lambda>sigs.
                 bind_e (latestActivity w sigs) (\<lambda>latest.
                 Inr \<lparr>content =
                   [text_item ''Program Deployment Check Report:'',
                    text_item (join [CHR 0x0A]
                      ([''Program found: '' @ programId,
                        idl_line,
                        ''upgradeAuthorityPubkey: '' @ toBase58 w upgradeAuthorityAddress,
                        ''Multisig: '' @ (if isMultisig then ''Yes'' else ''No''),
                        security_line]
                       @ sensitive_lines
                       @ [''Program size: ''
                            @ number_text w (of_nat (length (data info))) @ '' bytes'',
                          ''Latest activity: '' @ latest]))]\<rparr>))))))))))))"

definition checkProgramDeployment :: "world \<Rightarrow> string \<Rightarrow> tool_result" where
  "checkProgramDeployment w programId =
     try_catch (checkProgramDeployment_try w programId) error_result"

subsection \<open>createCPI\<close>

text \<open>Lines 747-784 / 1124-1161; the two files agree.\<close>

text \<open>\<open>v || d\<close> for an optional string.\<close>

definition or_else :: "string option \<Rightarrow> string \<Rightarrow> string" where
  "or_else v d = (case env_value v of Some s \<Rightarrow> s | None \<Rightarrow> d)"

definition createCPI_try :: "world \<Rightarrow> string \<Rightarrow> string \<Rightarrow> js_error + tool_result" where
  "createCPI_try w programId instructionName =
     bind_e (solanaprogram_createCPI w programId instructionName) (\<lambda>result.
       case result of
         CpiError err \<Rightarrow> Inr \<lparr>content = [text_item (or_else err ''Unknown error'')]\<rparr>
       | CpiExample example program_idl cl \<Rightarrow>
           Inr \<lparr>content =
             [text_item ''CPI Example:'',
              \<lparr>item_type = ''text'',
               item_text = Some (or_else example ''// No example generated''),
               item_language = Some ''rust''\<rparr>,
              text_item ''Program IDL:'',
              \<lparr>item_type = ''text'',
               item_text = Some (JSON_stringify2 w
                 (case program_idl of
                    Some v \<Rightarrow> if truthy program_idl then v else JObj []
                  | None \<Rightarrow> JObj [])),
               item_language = Some ''json''\<rparr>,
              text_item (''Cluster: '' @ or_else cl ''unknown'')]\<rparr>)"

definition createCPI :: "world \<Rightarrow> string \<Rightarrow> string \<Rightarrow> tool_result" where
  "createCPI w programId instructionName =
     try_catch (createCPI_try w programId instructionName) error_result"

subsection \<open>getDuneSolanaData\<close>

text \<open>Lines 785-854 / 1164-1232; the two files agree.\<close>

text \<open>\<open>await Promise.all([p1, p2, p3])\<close>: the values when all three resolve; otherwise
  it rejects with the rejection that came first in time, which the world picks among the
  rejections.\<close>

definition Promise_all3 ::
  "world \<Rightarrow> js_error + 'a \<Rightarrow> js_error + 'a \<Rightarrow> js_error + 'a \<Rightarrow> js_error + ('a \<times> 'a \<times> 'a)" where
  "Promise_all3 w p1 p2 p3 =
     (case (p1, p2, p3) of
        (Inr a, Inr b, Inr c) \<Rightarrow> Inr (a, b, c)
      | _ \<Rightarrow> Inl (Promise_all_rejection w
               (concat (map (\<lambda>p. case p of Inl e \<Rightarrow> [e] | Inr _ \<Rightarrow> []) [p1, p2, p3]))))"

definition getDuneSolanaData_try :: "world \<Rightarrow> string \<Rightarrow> rat \<Rightarrow> js_error + tool_result" where
  "getDuneSolanaData_try w programId days =
     (case env_value (DUNE_API_KEY w) of
        None \<Rightarrow> Inl (Error ''DUNE_API_KEY is not set in the environment variables'')
      | Some key \<Rightarrow>
          bind_e (Promise_all3 w
            (client_runQuery w key
               \<lparr>queryId = 2611952,
                query_parameters = [QueryText ''program id'' programId,
                                    QueryNumber ''days'' days]\<rparr>)
            (client_runQuery w key
               \<lparr>queryId = 2611885,
                query_parameters = [QueryText ''program id'' programId,
                                    QueryNumber ''days'' days]\<rparr>)
            (client_runQuery w key
               \<lparr>queryId = 2611938,
                query_parameters = [QueryText ''program id'' programId]\<rparr>))
          (\<lambda>(top1000signersdata, programCallsdata, cpiProgramCallsdata).
             case (top1000signersdata, programCallsdata, cpiProgramCallsdata) of
               (Some signers, Some calls, Some cpi_calls) \<Rightarrow>
                 if truthy top1000signersdata \<and> truthy programCallsdata
                    \<and> truthy cpiProgramCallsdata
                 then Inr \<lparr>content =
                   [text_item (''Dune Analytics data for Solana program '' @ programId
                      @ '' over the last '' @ number_text w days @ '' days:''),
                    text_item ''Top 1000 Signers:'',
                    text_item (JSON_stringify2 w signers),
                    text_item ''Program Calls:'',
                    text_item (JSON_stringify2 w calls),
                    text_item ''CPI Program Calls:'',
                    text_item (JSON_stringify2 w cpi_calls)]\<rparr>
                 else Inr \<lparr>content = [text_item ''No data returned from Dune Analytics.'']\<rparr>
             | _ \<Rightarrow> Inr \<lparr>content = [text_item ''No data returned from Dune Analytics.'']\<rparr>))"

definition getDuneSolanaData :: "world \<Rightarrow> string \<Rightarrow> rat \<Rightarrow> tool_result" where
  "getDuneSolanaData w programId days =
     try_catch (getDuneSolanaData_try w programId days) error_result"

subsection \<open>buildTransaction, submitTransaction, analyzeTransaction (event-stream variant only)\<close>

text \<open>Lines 1234-1412 of \<open>README.md\<close>.\<close>

record key_input =
  in_pubkey :: string
  in_isSigner :: bool
  in_isWritable :: bool

record instruction_input =
  in_programId :: string
  in_keys :: "key_input list"
  in_data :: string

definition build_input_instruction :: "world \<Rightarrow> instruction_input \<Rightarrow> js_error + transaction_instruction" where
  "build_input_instruction w ix =
     bind_e (map_e (\<lambda>key.
         bind_e (new_PublicKey w (PkString (in_pubkey key))) (\<lambda>pk.
         Inr (AccountMeta pk (in_isSigner key) (in_isWritable key)))) (in_keys ix)) (\<lambda>keys.
     bind_e (new_PublicKey w (PkString (in_programId ix))) (\<lambda>program.
     bind_e (bs58_decode w (in_data ix)) (\<lambda>decoded.
     Inr \<lparr>ix_keys = keys, ix_programId = program, ix_data = decoded\<rparr>)))"

definition buildTransaction_try ::
  "world \<Rightarrow> instruction_input list \<Rightarrow> string option \<Rightarrow> js_error + tool_result" where
  "buildTransaction_try w instructions recentBlockhash =
     (case env_value (PAYER_PRIVATE_KEY w) of
        None \<Rightarrow> Inl (Error ''PAYER_PRIVATE_KEY not found in environment variables'')
      | Some payerPrivateKey \<Rightarrow>
          bind_e (bs58_decode w payerPrivateKey) (\<lambda>secretKey.
          bind_e (Keypair_fromSecretKey w secretKey) (\<lambda>payer.
          bind_e (map_e (build_input_instruction w) instructions) (\<lambda>ixs.
          bind_e (if truthy_str recentBlockhash then Inr recentBlockhash
                  else bind_e (connection_getLatestBlockhash w) (\<lambda>blockhash.
                       Inr (Some blockhash))) (\<lambda>blockhash.
          bind_e (partialSign w
                    \<lparr>tx_instructions = ixs, tx_feePayer = Some (keypair_publicKey payer),
                     tx_recentBlockhash = blockhash, tx_signatures = []\<rparr> payer) (\<lambda>signed.
          bind_e (serialize w signed False) (\<lambda>raw.
          Inr \<lparr>content =
            [text_item ''Serialized Transaction:'',
             text_item (Buffer_toString_base64 w raw),
             text_item (CHR 0x0A # ''Transaction Details:''),
             text_item (stringify_transaction w signed)]\<rparr>)))))))"

definition buildTransaction ::
  "world \<Rightarrow> instruction_input list \<Rightarrow> string option \<Rightarrow> tool_result" where
  "buildTransaction w instructions recentBlockhash =
     try_catch (buildTransaction_try w instructions recentBlockhash) error_result"

definition submitTransaction_try :: "world \<Rightarrow> string \<Rightarrow> bool \<Rightarrow> js_error + tool_result" where
  "submitTransaction_try w serializedTransaction skipPreflight =
     bind_e (Transaction_from w (Buffer_from_base64 w serializedTransaction)) (\<lambda>tx.
     bind_e (serialize w tx True) (\<lambda>raw.
     bind_e (sendAndConfirmRawTransaction w raw skipPreflight) (\<lambda>sig.
     Inr \<lparr>content =
       [text_item ''Transaction submitted successfully!'',
        text_item (''Signature: '' @ sig),
        text_item (''Solana Explorer URL: https://explorer.solana.com/tx/'' @ sig)]\<rparr>)))"

definition submitTransaction :: "world \<Rightarrow> string \<Rightarrow> bool \<Rightarrow> tool_result" where
  "submitTransaction w serializedTransaction skipPreflight =
     try_catch (submitTransaction_try w serializedTransaction skipPreflight) error_result"

text \<open>\<open>!data || data.length === 0\<close> and \<open>data[0]\<close> on a parsed JSON value.\<close>

definition no_data :: "jval \<Rightarrow> bool" where
  "no_data d =
     (\<not> truthy (Some d) \<or>
      (case d of
         JArr xs \<Rightarrow> xs = []
       | JObj kvs \<Rightarrow> map_of kvs ''length'' = Some (JNum 0)
       | _ \<Rightarrow> False))"

definition index0 :: "world \<Rightarrow> jval \<Rightarrow> jval option" where
  "index0 w d =
     (case d of
        JArr xs \<Rightarrow> (case xs of [] \<Rightarrow> None | x # _ \<Rightarrow> Some x)
      | JObj kvs \<Rightarrow> map_of kvs ''0''
      | JStr s \<Rightarrow> Some (JStr (charAt0 w s))
      | _ \<Rightarrow> None)"

definition analyzeTransaction_try :: "world \<Rightarrow> string \<Rightarrow> js_error + tool_result" where
  "analyzeTransaction_try w signature =
     (case env_value (HELIUS_API_KEY w) of
        None \<Rightarrow> Inl (Error ''HELIUS_API_KEY not found in environment variables'')
      | Some key \<Rightarrow>
          bind_e (fetch w (''https://api.helius.xyz/v0/transactions?api-key='' @ key) (Some
            \<lparr>http_method = ''POST'',
             http_headers = [(''Content-Type'', ''application/json'')],
             http_body = JSON_stringify w (JObj [(''transactions'', JArr [JStr signature])])\<rparr>))
          (\<lambda>response.
            if \<not> resp_ok response
            then Inl (Error (''HTTP error! status: '' @ number_text w (resp_status response)))
            else bind_e (resp_json response) (\<lambda>helius.
              if no_data helius
              then Inr \<lparr>content = [text_item ''No transaction data found.'']\<rparr>
              else Inr \<lparr>content =
                [text_item ''Transaction Analysis:'',
                 \<lparr>item_type = ''text'',
                  item_text = map_option (JSON_stringify2 w) (index0 w helius),
                  item_language = None\<rparr>]\<rparr>)))"

definition analyzeTransaction :: "world \<Rightarrow> string \<Rightarrow> tool_result" where
  "analyzeTransaction w signature =
     try_catch (analyzeTransaction_try w signature) error_result"

section \<open>Prompts\<close>

text \<open>Lines 887-969 / 1475-1557; the two files agree.\<close>

record prompt_message =
  role :: string
  message_content :: content_item

text \<open>The validated arguments of a prompt: none, \<open>{bytes}\<close> or \<open>{signature}\<close>.\<close>

datatype prompt_args = NoArgs | BytesArgs string | SignatureParam string

definition user_message :: "string \<Rightarrow> prompt_message list" where
  "user_message t = [\<lparr>role = ''user'', message_content = text_item t\<rparr>]"

definition calculate_storage_deposit :: "string \<Rightarrow> prompt_message list" where
  "calculate_storage_deposit bytes' =
     user_message (''Calculate the SOL amount needed to store '' @ bytes'
       @ '' bytes of data on Solana using getMinimumBalanceForRentExemption.'')"

definition minimum_amount_of_sol_for_storage :: "prompt_message list" where
  "minimum_amount_of_sol_for_storage =
     user_message (''Calculate the amount of SOL needed to store 0 bytes of data on Solana ''
       @ ''using getMinimumBalanceForRentExemption & present it to the user as the minimum ''
       @ ''cost for storing any data on Solana.'')"

definition why_did_my_transaction_fail :: "string \<Rightarrow> prompt_message list" where
  "why_did_my_transaction_fail signature =
     user_message (''Look up the transaction with signature '' @ signature
       @ '' and inspect its logs to figure out why it failed.'')"

definition how_much_did_this_transaction_cost :: "string \<Rightarrow> prompt_message list" where
  "how_much_did_this_transaction_cost signature =
     user_message (''Calculate the network fee for the transaction with signature ''
       @ signature @ '' by fetching it and inspecting the '' @ [CHR 0x27] @ ''fee''
       @ [CHR 0x27] @ '' field in '' @ [CHR 0x27] @ ''meta'' @ [CHR 0x27]
       @ ''. Base fee is 0.000005 sol per signature (also provided as array at the end). ''
       @ ''So priority fee is fee - (numSignatures * 0.000005). ''
       @ ''Please provide the base fee and the priority fee.'')"

definition what_happened_in_transaction :: "string \<Rightarrow> prompt_message list" where
  "what_happened_in_transaction signature =
     user_message (''Look up the transaction with signature '' @ signature
       @ '' and inspect its logs & instructions to figure out what happened.'')"

text \<open>The prompts registered by \<open>server.prompt(name, description, schema, template)\<close>, the
  same in both files. \<open>None\<close>: the arguments do not fit the prompt's schema.\<close>

definition prompts :: "(string \<times> (prompt_args \<Rightarrow> prompt_message list option)) list" where
  "prompts =
     [(''calculate-storage-deposit'',
         \<lambda>a. case a of BytesArgs b \<Rightarrow> Some (calculate_storage_deposit b) | _ \<Rightarrow> None),
      (''minimum-amount-of-sol-for-storage'',
         \<lambda>a. case a of NoArgs \<Rightarrow> Some minimum_amount_of_sol_for_storage | _ \<Rightarrow> None),
      (''why-did-my-transaction-fail'',
         \<lambda>a. case a of SignatureParam s \<Rightarrow> Some (why_did_my_transaction_fail s) | _ \<Rightarrow> None),
      (''how-much-did-this-transaction-cost'',
         \<lambda>a. case a of SignatureParam s \<Rightarrow> Some (how_much_did_this_transaction_cost s)
                | _ \<Rightarrow> None),
      (''what-happened-in-transaction'',
         \<lambda>a. case a of SignatureParam s \<Rightarrow> Some (what_happened_in_transaction s) | _ \<Rightarrow> None)]"

text \<open>The text of a rendered message.\<close>

definition message_text :: "prompt_message \<Rightarrow> string" where
  "message_text m = (case item_text (message_content m) of Some t \<Rightarrow> t | None \<Rightarrow> [])"

section \<open>The tool registry and dispatch\<close>

text \<open>The validated arguments of a tool call, one shape per schema. \<open>days\<close> and
  \<open>skipPreflight\<close> are optional with a default.\<close>

datatype tool_args =
    PublicKeyArgs string
  | DataSizeArgs rat
  | SignatureArgs string
  | SerializedTransactionArgs string
  | SecurityTxtArgs security_txt_input
  | ProgramIdArgs string
  | TestProgramIdlArgs string string string
  | CreateCPIArgs string string
  | DuneArgs string "rat option"
  | BuildTransactionArgs "instruction_input list" "string option"
  | SubmitTransactionArgs string "bool option"

datatype variant = Stdio | Sse

text \<open>A registered tool: its name, its \<open>try\<close> block on arguments of its schema's shape
  (\<open>None\<close> on any other shape) and its \<open>catch\<close> block (\<open>None\<close> when the handler has no
  \<open>try\<close>/\<open>catch\<close>).\<close>

record tool =
  tool_name :: string
  tool_try :: "world \<Rightarrow> tool_args \<Rightarrow> (js_error + tool_result) option"
  tool_catch :: "(js_error \<Rightarrow> tool_result) option"

definition on_programId ::
  "(world \<Rightarrow> string \<Rightarrow> js_error + tool_result) \<Rightarrow> world \<Rightarrow> tool_args \<Rightarrow> (js_error + tool_result) option" where
  "on_programId f w a = (case a of ProgramIdArgs p \<Rightarrow> Some (f w p) | _ \<Rightarrow> None)"

text \<open>The tools both files register, in the order of the \<open>server.tool\<close> calls, with the
  blocks of the given variant.\<close>

definition common_tools :: "variant \<Rightarrow> tool list" where
  "common_tools v =
     [\<lparr>tool_name = ''getAccountInfo'',
       tool_try = (\<lambda>w a. case a of PublicKeyArgs k \<Rightarrow> Some (getAccountInfo_try w k) | _ \<Rightarrow> None),
       tool_catch = Some error_result\<rparr>,
      \<lparr>tool_name = ''getBalance'',
       tool_try = (\<lambda>w a. case a of PublicKeyArgs k \<Rightarrow> Some (getBalance_try w k) | _ \<Rightarrow> None),
       tool_catch = Some error_result\<rparr>,
      \<lparr>tool_name = ''getMinimumBalanceForRentExemption'',
       tool_try = (\<lambda>w a. case a of
           DataSizeArgs n \<Rightarrow> Some (getMinimumBalanceForRentExemption_try w n) | _ \<Rightarrow> None),
       tool_catch = Some error_result\<rparr>,
      \<lparr>tool_name = ''getTransaction'',
       tool_try = (\<lambda>w a. case a of SignatureArgs s \<Rightarrow> Some (getTransaction_try w s) | _ \<Rightarrow> None),
       tool_catch = Some error_result\<rparr>,
      \<lparr>tool_name = ''getPriorityFee'',
       tool_try = (\<lambda>w a. case a of
           SerializedTransactionArgs t \<Rightarrow>
             Some (case v of Stdio \<Rightarrow> getPriorityFee_stdio_try w t
                           | Sse \<Rightarrow> getPriorityFee_sse_try w t)
         | _ \<Rightarrow> None),
       tool_catch = Some error_result\<rparr>,
      \<lparr>tool_name = ''generateSecurityTxt'',
       tool_try = (\<lambda>w a. case a of
           SecurityTxtArgs input \<Rightarrow> Some (Inr (generateSecurityTxt input)) | _ \<Rightarrow> None),
       tool_catch = None\<rparr>,
      \<lparr>tool_name = ''getProgramIdl'',
       tool_try = on_programId getProgramIdl_try,
       tool_catch = Some error_result\<rparr>,
      \<lparr>tool_name = ''createGPAFilters'',
       tool_try = on_programId createGPAFilters_try,
       tool_catch = Some error_result\<rparr>,
      \<lparr>tool_name = ''testProgramIdl'',
       tool_try = (\<lambda>w a. case a of
           TestProgramIdlArgs p j n \<Rightarrow>
             Some (case v of Stdio \<Rightarrow> testProgramIdl_stdio_try w p j n
                           | Sse \<Rightarrow> testProgramIdl_sse_try w p j n)
         | _ \<Rightarrow> None),
       tool_catch = Some (case v of Stdio \<Rightarrow> error_result | Sse \<Rightarrow> testProgramIdl_sse_catch)\<rparr>,
      \<lparr>tool_name = ''lookupProgramAuth'',
       tool_try = on_programId (case v of Stdio \<Rightarrow> lookupProgramAuth_stdio_try
                                        | Sse \<Rightarrow> lookupProgramAuth_sse_try),
       tool_catch = Some error_result\<rparr>,
      \<lparr>tool_name = ''checkupProgram'',
       tool_try = on_programId checkupProgram_try,
       tool_catch = Some error_result\<rparr>,
      \<lparr>tool_name = ''checkProgramDeployment'',
       tool_try = on_programId checkProgramDeployment_try,
       tool_catch = Some error_result\<rparr>,
      \<lparr>tool_name = ''createCPI'',
       tool_try = (\<lambda>w a. case a of CreateCPIArgs p n \<Rightarrow> Some (createCPI_try w p n) | _ \<Rightarrow> None),
       tool_catch = Some error_result\<rparr>,
      \<lparr>tool_name = ''getDuneSolanaData'',
       tool_try = (\<lambda>w a. case a of
           DuneArgs p days \<Rightarrow>
             Some (getDuneSolanaData_try w p (case days of None \<Rightarrow> 10 | Some d \<Rightarrow> d))
         | _ \<Rightarrow> None),
       tool_catch = Some error_result\<rparr>]"

text \<open>The tools only the event-stream variant registers.\<close>

definition sse_only_tools :: "tool list" where
  "sse_only_tools =
     [\<lparr>tool_name = ''buildTransaction'',
       tool_try = (\<lambda>w a. case a of
           BuildTransactionArgs ixs bh \<Rightarrow> Some (buildTransaction_try w ixs bh) | _ \<Rightarrow> None),
       tool_catch = Some error_result\<rparr>,
      \<lparr>tool_name = ''submitTransaction'',
       tool_try = (\<lambda>w a. case a of
           SubmitTransactionArgs t skip \<Rightarrow>
             Some (submitTransaction_try w t (case skip of None \<Rightarrow> False | Some b \<Rightarrow> b))
         | _ \<Rightarrow> None),
       tool_catch = Some error_result\<rparr>,
      \<lparr>tool_name = ''analyzeTransaction'',
       tool_try = (\<lambda>w a. case a of SignatureArgs s \<Rightarrow> Some (analyzeTransaction_try w s) | _ \<Rightarrow> None),
       tool_catch = Some error_result\<rparr>]"

definition tools :: "variant \<Rightarrow> tool list" where
  "tools v = (case v of Stdio \<Rightarrow> common_tools Stdio | Sse \<Rightarrow> common_tools Sse @ sse_only_tools)"

text \<open>
  Modelled from the spec: the lookup by name and the validation against the schema are
  done by the MCP SDK, which is not in the sources. \<open>dispatch\<close> looks the tool up
  (\<open>UnknownToolError\<close> if absent), checks that the arguments fit its schema
  (\<open>ValidationError\<close> if not) and invokes the handler: the tool's \<open>try\<close> block, and on a throw
  its \<open>catch\<close> block. A throw of a handler without a \<open>catch\<close> would leave the handler
  (\<open>UncaughtError\<close>).
\<close>

datatype fault = UnknownToolError | ValidationError | UncaughtError js_error

definition invoke :: "tool \<Rightarrow> world \<Rightarrow> tool_args \<Rightarrow> fault + tool_result" where
  "invoke t w a =
     (case tool_try t w a of
        None \<Rightarrow> Inl ValidationError
      | Some (Inr r) \<Rightarrow> Inr r
      | Some (Inl e) \<Rightarrow>
          (case tool_catch t of
             Some handler \<Rightarrow> Inr (handler e)
           | None \<Rightarrow> Inl (UncaughtError e)))"

definition dispatch :: "variant \<Rightarrow> world \<Rightarrow> string \<Rightarrow> tool_args \<Rightarrow> fault + tool_result" where
  "dispatch v w n a =
     (case find (\<lambda>t. tool_name t = n) (tools v) of
        None \<Rightarrow> Inl UnknownToolError
      | Some t \<Rightarrow> invoke t w a)"

section \<open>The event-stream transport\<close>












section \<open>Worlds for concrete runs\<close>

text \<open>A world in which no credential is set and every network call fails. The examples
  below change the fields they need.\<close>

definition mock_world :: world where
  "mock_world =
     \<lparr>HELIUS_RPC_URL = None,
      HELIUS_API_KEY = None,
      DUNE_API_KEY = None,
      PAYER_PRIVATE_KEY = None,
      Number_toString = (\<lambda>x. ''NaN''),
      TypeError_message = (\<lambda>site. ''Cannot read properties of undefined''),
      JSON_parse = (\<lambda>s. Inl (Error ''Unexpected end of JSON input'')),
      JSON_stringify = (\<lambda>v. ''{}''),
      JSON_stringify2 = (\<lambda>v. ''{}''),
      Buffer_toString = (\<lambda>b. []),
      Buffer_toString_base64 = (\<lambda>b. []),
      Buffer_from_base64 = (\<lambda>s. []),
      toLowerCase = (\<lambda>s. s),
      charAt0 = take 1,
      Date_toISOString = (\<lambda>t. Inl (Error ''Invalid time value'')),
      fetch = (\<lambda>url init. Inl (Error ''fetch failed'')),
      Promise_all_rejection = hd,
      new_PublicKey = (\<lambda>i. case i of
          PkString s \<Rightarrow> if s = [] then Inl (Error ''Invalid public key input'')
                        else Inr (PublicKey (Buffer_from s))
        | PkBuffer b \<Rightarrow> Inr (PublicKey b)
        | PkValue v \<Rightarrow> Inl (Error ''Invalid public key input'')),
      isOnCurve = (\<lambda>pk. True),
      findProgramAddress = (\<lambda>seeds program. Inr (PublicKey (concat seeds))),
      Keypair_fromSecretKey = (\<lambda>secret. Inr (Keypair (PublicKey (take 32 secret)) secret)),
      partialSign = (\<lambda>tx kp. Inr tx),
      serialize = (\<lambda>tx strict. Inr []),
      Transaction_from = (\<lambda>b. Inl (Error ''Reached end of buffer unexpectedly'')),
      stringify_account_info = (\<lambda>a. ''null''),
      stringify_transaction = (\<lambda>tx. ''{}''),
      connection_getAccountInfo = (\<lambda>pk. Inl (Error ''fetch failed'')),
      connection_getBalance = (\<lambda>pk. Inl (Error ''fetch failed'')),
      connection_getMinimumBalanceForRentExemption = (\<lambda>n. Inl (Error ''fetch failed'')),
      connection_getParsedTransaction = (\<lambda>s. Inl (Error ''fetch failed'')),
      connection_getSignaturesForAddress = (\<lambda>pk limit. Inl (Error ''fetch failed'')),
      connection_getLatestBlockhash = Inl (Error ''fetch failed''),
      connection_simulateTransaction = (\<lambda>tx. Inl (Error ''fetch failed'')),
      sendAndConfirmRawTransaction = (\<lambda>raw skip. Inl (Error ''fetch failed'')),
      anchor_fetchIdl = (\<lambda>pk. Inl (Error ''fetch failed'')),
      new_Program = (\<lambda>idl pk. Inr ()),
      instruction_encode = (\<lambda>idl n. Inr [1, 2, 3, 4, 5, 6, 7, 8, 9]),
      accountDiscriminator = (\<lambda>n. []),
      bs58_encode = (\<lambda>b. replicate (length b) (CHR ''1'')),
      bs58_decode = (\<lambda>s. if s = [] then Inl (Error ''Non-base58 character'')
                          else Inr (Buffer_from s)),
      new_BN = (\<lambda>v. case v of
          None \<Rightarrow> Inr 0
        | Some (JNum n) \<Rightarrow> Inr \<lfloor>n\<rfloor>
        | Some _ \<Rightarrow> Inl (Error ''Invalid character'')),
      stringify_idl = (\<lambda>idl. ''{}''),
      client_runQuery = (\<lambda>key args. Inl (Error ''fetch failed'')),
      solanaprogram_createCPI = (\<lambda>p n. Inl (Error ''fetch failed''))\<rparr>"

subsection \<open>Balance and transaction lookups\<close>

text \<open>The balance collaborator returns 1_000_000_000 lamports for every key.\<close>

definition world_one_sol :: world where
  "world_one_sol = mock_world\<lparr>connection_getBalance := (\<lambda>pk. Inr 1000000000)\<rparr>"

text \<open>The same balances in a process with other credentials and other collaborators.\<close>

definition world_one_sol' :: world where
  "world_one_sol' =
     world_one_sol\<lparr>DUNE_API_KEY := Some ''dune-key'',
                   PAYER_PRIVATE_KEY := Some ''payer'',
                   connection_getParsedTransaction := (\<lambda>s. Inr JNull)\<rparr>"

text \<open>The transaction lookup throws \<open>"not found"\<close>.\<close>

definition world_tx_not_found :: world where
  "world_tx_not_found =
     mock_world\<lparr>connection_getParsedTransaction := (\<lambda>s. Inl (Error ''not found''))\<rparr>"

subsection \<open>A payer key that does not decode\<close>

definition world_bad_payer :: world where
  "world_bad_payer =
     mock_world\<lparr>PAYER_PRIVATE_KEY := Some ''payer'',
                bs58_decode := (\<lambda>s. Inl (Error ''Non-base58 character''))\<rparr>"

subsection \<open>Programs with and without an IDL\<close>



subsection \<open>Upgradeable programs\<close>

text \<open>
  The program \<open>Prog\<close> is an upgradeable program: its account names the program-data
  account in bytes 4 to 36, and the program-data account holds, after a 4-byte tag, an
  8-byte slot and a 1-byte option tag, the upgrade authority in bytes 13 to 45.
  \<open>Orphan\<close> names a program-data account that does not exist; no other account exists.
  The base58 stand-in prints one character per byte.
\<close>

definition key32 :: "byte \<Rightarrow> bytes" where
  "key32 b = [b, b, b, b, b, b, b, b, b, b, b, b, b, b, b, b,
              b, b, b, b, b, b, b, b, b, b, b, b, b, b, b, b]"

definition program_account :: "byte \<Rightarrow> account_info" where
  "program_account b =
     \<lparr>data = [2, 0, 0, 0] @ key32 b, owner = PublicKey [], lamports = 1,
      executable = True\<rparr>"

definition program_data_account :: account_info where
  "program_data_account =
     \<lparr>data = [3, 0, 0, 0] @ [0, 0, 0, 0, 0, 0, 0, 0] @ [1] @ key32 9 @ [127, 69, 76, 70],
      owner = PublicKey [], lamports = 1, executable = False\<rparr>"

definition world_programs :: world where
  "world_programs =
     mock_world\<lparr>
       connection_getAccountInfo := (\<lambda>pk.
         if pk = PublicKey (Buffer_from ''Prog'') then Inr (Some (program_account 7))
         else if pk = PublicKey (Buffer_from ''Orphan'') then Inr (Some (program_account 8))
         else if pk = PublicKey (key32 7) then Inr (Some program_data_account)
         else Inr None),
       bs58_encode := map (\<lambda>b. if b = 9 then CHR ''9'' else CHR ''0'')\<rparr>"

subsection \<open>A program to test\<close>








section \<open>Auxiliary facts\<close>

lemma decimal_1: "decimal (Suc 0) = ''1''"
  by (simp add: decimal.simps digit_char_def)

lemma decimal_1e9: "decimal 1000000000 = ''1000000000''"
  by (simp add: decimal.simps digit_char_def)

lemma number_text_1: "number_text w 1 = ''1''"
  by (simp add: number_text_def MAX_SAFE_def decimal_1)

lemma number_text_1e9: "number_text w 1000000000 = ''1000000000''"
  by (simp add: number_text_def MAX_SAFE_def decimal_1e9)

lemma distinct_tool_names: "distinct (map tool_name (tools v))"
  by (cases v) (simp_all add: tools_def common_tools_def sse_only_tools_def)

lemma find_distinct:
  "distinct (map f xs) \<Longrightarrow> x \<in> set xs \<Longrightarrow> find (\<lambda>y. f y = f x) xs = Some x"
  by (induction xs) (auto simp: rev_image_eqI)

lemma find_tool:
  "t \<in> set (tools v) \<Longrightarrow> find (\<lambda>x. tool_name x = tool_name t) (tools v) = Some t"
  by (rule find_distinct [OF distinct_tool_names])

text \<open>Dispatching to a tool that both variants register with the same blocks.\<close>

lemma dispatch_getBalance:
  "dispatch v w ''getBalance'' (PublicKeyArgs k) = Inr (getBalance w k)"
  by (cases v; cases "getBalance_try w k")
    (simp_all add: dispatch_def tools_def common_tools_def invoke_def getBalance_def
       try_catch_def)

lemma dispatch_getTransaction:
  "dispatch v w ''getTransaction'' (SignatureArgs s) = Inr (getTransaction w s)"
  by (cases v; cases "getTransaction_try w s")
    (simp_all add: dispatch_def tools_def common_tools_def invoke_def getTransaction_def
       try_catch_def)

section \<open>The balance tool\<close>

text \<open>
  C2. When the balance collaborator returns 1_000_000_000 lamports for the public key
  \<open>K\<close>, \<open>dispatch("getBalance", {publicKey: K})\<close> returns a Result whose content is the
  single text item \<open>"1 SOL (1000000000 lamports)"\<close>, in either variant of the server.
\<close>

theorem getBalance_one_sol:
  assumes "new_PublicKey w (PkString K) = Inr pk"
    and "connection_getBalance w pk = Inr 1000000000"
  shows "dispatch v w ''getBalance'' (PublicKeyArgs K)
           = Inr \<lparr>content = [text_item ''1 SOL (1000000000 lamports)'']\<rparr>"
  using assms
  by (simp add: dispatch_getBalance getBalance_def try_catch_def getBalance_try_def
        bind_e_def LAMPORTS_PER_SOL_def number_text_1 number_text_1e9)

theorem getBalance_one_sol_witness:
  "new_PublicKey world_one_sol (PkString ''K'') = Inr (PublicKey [75])
   \<and> connection_getBalance world_one_sol (PublicKey [75]) = Inr 1000000000
   \<and> dispatch Stdio world_one_sol ''getBalance'' (PublicKeyArgs ''K'')
       = Inr \<lparr>content = [text_item ''1 SOL (1000000000 lamports)'']\<rparr>"
proof -
  have pk: "new_PublicKey world_one_sol (PkString ''K'') = Inr (PublicKey [75])"
    by (simp add: world_one_sol_def mock_world_def Buffer_from_def)
  have bal: "connection_getBalance world_one_sol (PublicKey [75]) = Inr 1000000000"
    by (simp add: world_one_sol_def)
  from getBalance_one_sol [OF pk bal, of Stdio] pk bal show ?thesis
    by simp
qed

text \<open>
  C8. Two dispatches of the read-only \<open>getBalance\<close> tool with the same input, in two
  runs whose key parsing, balance collaborator and number rendering answer alike, return
  the same Result, whatever else differs between the runs (credentials, the other
  collaborators).
\<close>

theorem getBalance_deterministic:
  assumes "new_PublicKey w1 (PkString K) = new_PublicKey w2 (PkString K)"
    and "connection_getBalance w1 = connection_getBalance w2"
    and "Number_toString w1 = Number_toString w2"
  shows "dispatch v w1 ''getBalance'' (PublicKeyArgs K)
           = dispatch v w2 ''getBalance'' (PublicKeyArgs K)"
proof -
  have "number_text w1 = number_text w2"
    unfolding number_text_def assms(3) ..
  then have "getBalance_try w1 K = getBalance_try w2 K"
    unfolding getBalance_try_def assms(1) assms(2) by simp
  then show ?thesis
    by (simp add: dispatch_getBalance getBalance_def)
qed

theorem getBalance_deterministic_witness:
  "world_one_sol \<noteq> world_one_sol'
   \<and> dispatch Sse world_one_sol ''getBalance'' (PublicKeyArgs ''K'')
       = dispatch Sse world_one_sol' ''getBalance'' (PublicKeyArgs ''K'')"
proof -
  have "DUNE_API_KEY world_one_sol \<noteq> DUNE_API_KEY world_one_sol'"
    by (simp add: world_one_sol'_def world_one_sol_def mock_world_def)
  then have "world_one_sol \<noteq> world_one_sol'"
    by auto
  moreover have "dispatch Sse world_one_sol ''getBalance'' (PublicKeyArgs ''K'')
       = dispatch Sse world_one_sol' ''getBalance'' (PublicKeyArgs ''K'')"
    by (rule getBalance_deterministic) (simp_all add: world_one_sol'_def)
  ultimately show ?thesis
    by simp
qed

section \<open>The transaction tool\<close>

text \<open>
  C3. When the transaction-lookup collaborator throws an error with message
  \<open>"not found"\<close> for the signature \<open>S\<close>, \<open>dispatch("getTransaction", {signature: S})\<close>
  returns a Result (not a fault) whose content is the text \<open>"Error: not found"\<close>.
\<close>

theorem getTransaction_not_found:
  assumes "connection_getParsedTransaction w S = Inl (Error ''not found'')"
  shows "dispatch v w ''getTransaction'' (SignatureArgs S)
           = Inr \<lparr>content = [text_item ''Error: not found'']\<rparr>"
  using assms
  by (simp add: dispatch_getTransaction getTransaction_def try_catch_def
        getTransaction_try_def bind_e_def error_result_def)

theorem getTransaction_not_found_witness:
  "connection_getParsedTransaction world_tx_not_found ''5sig'' = Inl (Error ''not found'')
   \<and> dispatch Stdio world_tx_not_found ''getTransaction'' (SignatureArgs ''5sig'')
       = Inr \<lparr>content = [text_item ''Error: not found'']\<rparr>"
proof -
  have thrown: "connection_getParsedTransaction world_tx_not_found ''5sig''
      = Inl (Error ''not found'')"
    by (simp add: world_tx_not_found_def)
  from getTransaction_not_found [OF thrown, of Stdio] thrown show ?thesis
    by simp
qed

section \<open>Failures of a handler\<close>

lemma catch_of_tool:
  assumes "t \<in> set (tools v)" and "tool_try t w a = Some (Inl e)"
  shows "tool_catch t = Some (if v = Sse \<and> tool_name t = ''testProgramIdl''
                              then testProgramIdl_sse_catch else error_result)"
  using assms
  by (cases v) (auto simp: tools_def common_tools_def sse_only_tools_def split: tool_args.splits)

text \<open>
  C1, as the code has it. For every registered tool of either variant and every input
  that fits its schema: when the handler's \<open>try\<close> block throws \<open>e\<close>, dispatch returns a
  Result (the throw does not leave the handler) whose first content item is the text
  \<open>Error: <message of e>\<close>. It is the only item for every tool but \<open>testProgramIdl\<close> of the
  event-stream variant, whose \<open>catch\<close> block appends two fixed items describing the
  expected input.
\<close>

theorem handler_failure_becomes_error_result:
  assumes "t \<in> set (tools v)" and "tool_try t w a = Some (Inl e)"
  shows "dispatch v w (tool_name t) a
           = Inr \<lparr>content = text_item (''Error: '' @ message e)
                 # (if v = Sse \<and> tool_name t = ''testProgramIdl''
                    then [text_item ''Expected input JSON structure:'',
                          text_item EXPECTED_INPUT_HELP]
                    else [])\<rparr>"
proof -
  have "dispatch v w (tool_name t) a = invoke t w a"
    by (simp add: dispatch_def find_tool [OF assms(1)])
  also have "\<dots> = Inr ((if v = Sse \<and> tool_name t = ''testProgramIdl''
                          then testProgramIdl_sse_catch else error_result) e)"
    by (simp add: invoke_def assms(2) catch_of_tool [OF assms] del: if_split)
  finally show ?thesis
    by (simp add: testProgramIdl_sse_catch_def error_result_def)
qed

lemma bad_payer_throws:
  "testProgramIdl_sse_try world_bad_payer ''P'' ''{}'' ''ix''
     = Inl (Error ''Non-base58 character'')"
  by (simp add: testProgramIdl_sse_try_def env_value_def truthy_str_def world_bad_payer_def
        testProgramIdl_main_def bind_e_def)

lemma tool_3_stdio:
  "tools Stdio ! 3 \<in> set (tools Stdio)"
  "tool_name (tools Stdio ! 3) = ''getTransaction''"
  "tool_try (tools Stdio ! 3) w (SignatureArgs s) = Some (getTransaction_try w s)"
  by (simp_all add: tools_def common_tools_def)

lemma tool_8_sse:
  "tools Sse ! 8 \<in> set (tools Sse)"
  "tool_name (tools Sse ! 8) = ''testProgramIdl''"
  "tool_try (tools Sse ! 8) w (TestProgramIdlArgs p j n) = Some (testProgramIdl_sse_try w p j n)"
  by (simp_all add: tools_def common_tools_def)

theorem handler_failure_becomes_error_result_witness:
  "tools Stdio ! 3 \<in> set (tools Stdio)
   \<and> tool_try (tools Stdio ! 3) world_tx_not_found (SignatureArgs ''5sig'')
       = Some (Inl (Error ''not found''))
   \<and> dispatch Stdio world_tx_not_found ''getTransaction'' (SignatureArgs ''5sig'')
       = Inr \<lparr>content = [text_item ''Error: not found'']\<rparr>
   \<and> tools Sse ! 8 \<in> set (tools Sse)
   \<and> tool_try (tools Sse ! 8) world_bad_payer (TestProgramIdlArgs ''P'' ''{}'' ''ix'')
       = Some (Inl (Error ''Non-base58 character''))
   \<and> dispatch Sse world_bad_payer ''testProgramIdl'' (TestProgramIdlArgs ''P'' ''{}'' ''ix'')
       = Inr \<lparr>content = [text_item ''Error: Non-base58 character'',
                          text_item ''Expected input JSON structure:'',
                          text_item EXPECTED_INPUT_HELP]\<rparr>"
proof -
  have a: "tool_try (tools Stdio ! 3) world_tx_not_found (SignatureArgs ''5sig'')
      = Some (Inl (Error ''not found''))"
    by (simp add: tool_3_stdio getTransaction_try_def bind_e_def world_tx_not_found_def)
  have b: "tool_try (tools Sse ! 8) world_bad_payer (TestProgramIdlArgs ''P'' ''{}'' ''ix'')
      = Some (Inl (Error ''Non-base58 character''))"
    by (simp add: tool_8_sse bad_payer_throws)
  from handler_failure_becomes_error_result [OF tool_3_stdio(1) a]
    handler_failure_becomes_error_result [OF tool_8_sse(1) b]
    a b tool_3_stdio(1) tool_8_sse(1)
  show ?thesis
    by (simp add: tool_3_stdio(2) tool_8_sse(2))
qed

text \<open>The claim as stated (a single text item for every tool) fails for
  \<open>testProgramIdl\<close> of the event-stream variant: its Result has three items.\<close>

theorem single_error_item_counterexample:
  "testProgramIdl_sse_try world_bad_payer ''P'' ''{}'' ''ix''
     = Inl (Error ''Non-base58 character'')
   \<and> dispatch Sse world_bad_payer ''testProgramIdl'' (TestProgramIdlArgs ''P'' ''{}'' ''ix'')
       = Inr \<lparr>content = [text_item ''Error: Non-base58 character'',
                          text_item ''Expected input JSON structure:'',
                          text_item EXPECTED_INPUT_HELP]\<rparr>
   \<and> dispatch Sse world_bad_payer ''testProgramIdl'' (TestProgramIdlArgs ''P'' ''{}'' ''ix'')
       \<noteq> Inr \<lparr>content = [text_item ''Error: Non-base58 character'']\<rparr>"
  by (simp add: bad_payer_throws dispatch_def tools_def common_tools_def invoke_def
        testProgramIdl_sse_catch_def)

section \<open>Prompts with a signature\<close>

lemma message_text_user: "m \<in> set (user_message t) \<Longrightarrow> message_text m = t"
  by (simp add: user_message_def message_text_def text_item_def)

lemma why_did_my_transaction_fail_text:
  assumes "m \<in> set (why_did_my_transaction_fail s)"
  shows "sublist s (message_text m)"
proof -
  from assms obtain p q where "message_text m = p @ s @ q"
    unfolding why_did_my_transaction_fail_def by (blast dest: message_text_user)
  then show ?thesis
    by (simp only: sublist_appendI)
qed

lemma how_much_did_this_transaction_cost_text:
  assumes "m \<in> set (how_much_did_this_transaction_cost s)"
  shows "sublist s (message_text m)"
proof -
  from assms obtain p q where "message_text m = p @ s @ q"
    unfolding how_much_did_this_transaction_cost_def by (blast dest: message_text_user)
  then show ?thesis
    by (simp only: sublist_appendI)
qed

lemma what_happened_in_transaction_text:
  assumes "m \<in> set (what_happened_in_transaction s)"
  shows "sublist s (message_text m)"
proof -
  from assms obtain p q where "message_text m = p @ s @ q"
    unfolding what_happened_in_transaction_def by (blast dest: message_text_user)
  then show ?thesis
    by (simp only: sublist_appendI)
qed

text \<open>
  C9. Every registered prompt that takes a \<open>signature\<close> parameter, rendered with
  \<open>signature = "abc"\<close>, produces a message (exactly one), and the text of every message it
  produces contains the substring \<open>"abc"\<close>.
\<close>

theorem signature_prompts_contain_abc:
  "\<forall>(n, render) \<in> set prompts. \<forall>msgs. render (SignatureParam ''abc'') = Some msgs \<longrightarrow>
      length msgs = 1 \<and> (\<forall>m \<in> set msgs. sublist ''abc'' (message_text m))"
  unfolding prompts_def
  by (auto simp: why_did_my_transaction_fail_text how_much_did_this_transaction_cost_text
        what_happened_in_transaction_text)
    (simp_all add: why_did_my_transaction_fail_def how_much_did_this_transaction_cost_def
        what_happened_in_transaction_def user_message_def)

theorem signature_prompts_contain_abc_witness:
  "(''why-did-my-transaction-fail'',
      \<lambda>a. case a of SignatureParam s \<Rightarrow> Some (why_did_my_transaction_fail s) | _ \<Rightarrow> None)
     \<in> set prompts
   \<and> why_did_my_transaction_fail ''abc''
       = user_message
           ''Look up the transaction with signature abc and inspect its logs to figure out why it failed.''
   \<and> sublist ''abc'' (message_text (hd (why_did_my_transaction_fail ''abc'')))"
proof -
  have mem: "(''why-did-my-transaction-fail'',
      \<lambda>a. case a of SignatureParam s \<Rightarrow> Some (why_did_my_transaction_fail s) | _ \<Rightarrow> None)
     \<in> set prompts"
    by (simp add: prompts_def)
  from signature_prompts_contain_abc [THEN bspec, OF mem]
  have "\<forall>m \<in> set (why_did_my_transaction_fail ''abc''). sublist ''abc'' (message_text m)"
    by simp
  then have "sublist ''abc'' (message_text (hd (why_did_my_transaction_fail ''abc'')))"
    by (simp add: why_did_my_transaction_fail_def user_message_def)
  with mem show ?thesis
    by (simp add: why_did_my_transaction_fail_def)
qed

section \<open>A message posted before any event stream is open\<close>





section \<open>The sources of an IDL\<close>







section \<open>The two variants of lookupProgramAuth\<close>

text \<open>
  C10, as the code has it. With the same collaborator responses the two variants of
  \<open>lookupProgramAuth\<close> take the same steps up to the program-data account: both parse
  the program id, look the program account up, read the address of the program-data
  account from bytes 4 to 36 of its data and look that account up, and a throw in any
  of these steps gives the same Result \<open>Error: <message>\<close> in both. A missing account is
  reported by both as a one-item error Result, with different texts: the stdio variant
  says \<open>Error: Program not found\<close> and \<open>Error: Program data not found\<close>, the event-stream
  variant names the program id. When both accounts exist the event-stream variant
  reports the key in bytes 13 to 45 of the program-data account.
\<close>

theorem lookupProgramAuth_variants:
  "(\<forall>e. new_PublicKey w (PkString programId) = Inl e \<longrightarrow>
      lookupProgramAuth_stdio w programId = error_result e
      \<and> lookupProgramAuth_sse w programId = error_result e)
   \<and> (\<forall>pk. new_PublicKey w (PkString programId) = Inr pk \<longrightarrow>
      (\<forall>e. connection_getAccountInfo w pk = Inl e \<longrightarrow>
         lookupProgramAuth_stdio w programId = error_result e
         \<and> lookupProgramAuth_sse w programId = error_result e)
      \<and> (connection_getAccountInfo w pk = Inr None \<longrightarrow>
         lookupProgramAuth_stdio w programId
           = \<lparr>content = [text_item ''Error: Program not found'']\<rparr>
         \<and> lookupProgramAuth_sse w programId
           = \<lparr>content = [text_item (''Error: Program with ID '' @ programId @ '' not found.'')]\<rparr>)
      \<and> (\<forall>info. connection_getAccountInfo w pk = Inr (Some info) \<longrightarrow>
         (\<forall>e. new_PublicKey w (PkBuffer (slice 4 36 (data info))) = Inl e \<longrightarrow>
            lookupProgramAuth_stdio w programId = error_result e
            \<and> lookupProgramAuth_sse w programId = error_result e)
         \<and> (\<forall>address. new_PublicKey w (PkBuffer (slice 4 36 (data info))) = Inr address \<longrightarrow>
            (\<forall>e. connection_getAccountInfo w address = Inl e \<longrightarrow>
               lookupProgramAuth_stdio w programId = error_result e
               \<and> lookupProgramAuth_sse w programId = error_result e)
            \<and> (connection_getAccountInfo w address = Inr None \<longrightarrow>
               lookupProgramAuth_stdio w programId
                 = \<lparr>content = [text_item ''Error: Program data not found'']\<rparr>
               \<and> lookupProgramAuth_sse w programId
                 = \<lparr>content = [text_item
                     (''Error: Program data not found for '' @ programId @ ''.'')]\<rparr>)
            \<and> (\<forall>pd authority. connection_getAccountInfo w address = Inr (Some pd) \<longrightarrow>
               new_PublicKey w (PkBuffer (slice 13 45 (data pd))) = Inr authority \<longrightarrow>
               lookupProgramAuth_sse w programId
                 = \<lparr>content = [text_item
                     (''Program Authority: '' @ toBase58 w authority)]\<rparr>))))"
  by (simp add: lookupProgramAuth_stdio_def lookupProgramAuth_sse_def try_catch_def
        lookupProgramAuth_stdio_try_def lookupProgramAuth_sse_try_def bind_e_def
        error_result_def)

lemma world_programs_key:
  "s \<noteq> [] \<Longrightarrow> new_PublicKey world_programs (PkString s) = Inr (PublicKey (Buffer_from s))"
  by (simp add: world_programs_def mock_world_def)

lemma world_programs_buffer:
  "new_PublicKey world_programs (PkBuffer b) = Inr (PublicKey b)"
  by (simp add: world_programs_def mock_world_def)

lemma world_programs_accounts:
  "connection_getAccountInfo world_programs (PublicKey (Buffer_from ''Missing'')) = Inr None"
  "connection_getAccountInfo world_programs (PublicKey (Buffer_from ''Orphan''))
     = Inr (Some (program_account 8))"
  "connection_getAccountInfo world_programs (PublicKey (Buffer_from ''Prog''))
     = Inr (Some (program_account 7))"
  "connection_getAccountInfo world_programs (PublicKey (key32 8)) = Inr None"
  "connection_getAccountInfo world_programs (PublicKey (key32 7))
     = Inr (Some program_data_account)"
  by (simp_all add: world_programs_def Buffer_from_def key32_def)

lemma program_slices:
  "slice 4 36 (data (program_account b)) = key32 b"
  "slice 13 45 (data program_data_account) = key32 9"
  "slice 0 32 (data program_data_account)
     = [3, 0, 0, 0, 0, 0, 0, 0, 0, 0, 0, 0, 1, 9, 9, 9, 9, 9, 9, 9, 9, 9, 9, 9, 9, 9, 9, 9, 9,
        9, 9, 9]"
  by (simp_all add: slice_def program_account_def program_data_account_def key32_def)

lemma world_programs_encode:
  "bs58_encode world_programs (key32 9) = ''99999999999999999999999999999999''"
  "bs58_encode world_programs
     [3, 0, 0, 0, 0, 0, 0, 0, 0, 0, 0, 0, 1, 9, 9, 9, 9, 9, 9, 9, 9, 9, 9, 9, 9, 9, 9, 9, 9,
      9, 9, 9]
     = ''00000000000009999999999999999999''"
  by (simp_all add: world_programs_def key32_def)

theorem lookupProgramAuth_variants_witness:
  "lookupProgramAuth_stdio world_programs ''Missing''
     = \<lparr>content = [text_item ''Error: Program not found'']\<rparr>
   \<and> lookupProgramAuth_sse world_programs ''Missing''
     = \<lparr>content = [text_item ''Error: Program with ID Missing not found.'']\<rparr>
   \<and> lookupProgramAuth_stdio world_programs ''Orphan''
     = \<lparr>content = [text_item ''Error: Program data not found'']\<rparr>
   \<and> lookupProgramAuth_sse world_programs ''Orphan''
     = \<lparr>content = [text_item ''Error: Program data not found for Orphan.'']\<rparr>
   \<and> lookupProgramAuth_sse world_programs ''Prog''
     = \<lparr>content = [text_item ''Program Authority: 99999999999999999999999999999999'']\<rparr>
   \<and> lookupProgramAuth_stdio world_programs []
     = \<lparr>content = [text_item ''Error: Invalid public key input'']\<rparr>
   \<and> lookupProgramAuth_sse world_programs []
     = \<lparr>content = [text_item ''Error: Invalid public key input'']\<rparr>"
proof -
  have invalid: "new_PublicKey world_programs (PkString [])
      = Inl (Error ''Invalid public key input'')"
    by (simp add: world_programs_def mock_world_def)
  have authority: "toBase58 world_programs (PublicKey (key32 9))
      = ''99999999999999999999999999999999''"
    by (simp add: toBase58_def world_programs_encode)
  note v = lookupProgramAuth_variants [of world_programs]
  from v [of "''Missing''", THEN conjunct2, rule_format,
      of "PublicKey (Buffer_from ''Missing'')", THEN conjunct2, THEN conjunct1]
  have missing: "lookupProgramAuth_stdio world_programs ''Missing''
       = \<lparr>content = [text_item ''Error: Program not found'']\<rparr>
     \<and> lookupProgramAuth_sse world_programs ''Missing''
       = \<lparr>content = [text_item ''Error: Program with ID Missing not found.'']\<rparr>"
    by (simp add: world_programs_key world_programs_accounts)
  from v [of "''Orphan''", THEN conjunct2, rule_format,
      of "PublicKey (Buffer_from ''Orphan'')", THEN conjunct2, THEN conjunct2, rule_format,
      of "program_account 8", THEN conjunct2, rule_format, of "PublicKey (key32 8)",
      THEN conjunct2, THEN conjunct1]
  have orphan: "lookupProgramAuth_stdio world_programs ''Orphan''
       = \<lparr>content = [text_item ''Error: Program data not found'']\<rparr>
     \<and> lookupProgramAuth_sse world_programs ''Orphan''
       = \<lparr>content = [text_item ''Error: Program data not found for Orphan.'']\<rparr>"
    by (simp add: world_programs_key world_programs_accounts world_programs_buffer
          program_slices)
  from v [of "''Prog''", THEN conjunct2, rule_format,
      of "PublicKey (Buffer_from ''Prog'')", THEN conjunct2, THEN conjunct2, rule_format,
      of "program_account 7", THEN conjunct2, rule_format, of "PublicKey (key32 7)",
      THEN conjunct2, THEN conjunct2, rule_format, of program_data_account
      "PublicKey (key32 9)"]
  have prog: "lookupProgramAuth_sse world_programs ''Prog''
       = \<lparr>content = [text_item ''Program Authority: 99999999999999999999999999999999'']\<rparr>"
    by (simp add: world_programs_key world_programs_accounts world_programs_buffer
          program_slices authority)
  from v [of "[]", THEN conjunct1, rule_format, OF invalid]
  have bad: "lookupProgramAuth_stdio world_programs []
       = \<lparr>content = [text_item ''Error: Invalid public key input'']\<rparr>
     \<and> lookupProgramAuth_sse world_programs []
       = \<lparr>content = [text_item ''Error: Invalid public key input'']\<rparr>"
    by (simp add: error_result_def)
  from missing orphan prog bad show ?thesis
    by simp
qed

text \<open>The claim as stated fails: for a program that does not exist the two variants
  return different Results, and for the upgradeable program \<open>Prog\<close> they read different
  bytes of its program-data account and report different keys.\<close>

theorem lookupProgramAuth_variants_counterexample:
  "lookupProgramAuth_stdio world_programs ''Missing''
     = \<lparr>content = [text_item ''Error: Program not found'']\<rparr>
   \<and> lookupProgramAuth_sse world_programs ''Missing''
     = \<lparr>content = [text_item ''Error: Program with ID Missing not found.'']\<rparr>
   \<and> lookupProgramAuth_stdio world_programs ''Missing''
       \<noteq> lookupProgramAuth_sse world_programs ''Missing''
   \<and> lookupProgramAuth_stdio world_programs ''Prog''
     = \<lparr>content = [text_item ''Program Authority: 00000000000009999999999999999999'']\<rparr>
   \<and> lookupProgramAuth_sse world_programs ''Prog''
     = \<lparr>content = [text_item ''Program Authority: 99999999999999999999999999999999'']\<rparr>
   \<and> lookupProgramAuth_stdio world_programs ''Prog''
       \<noteq> lookupProgramAuth_sse world_programs ''Prog''"
  by (simp add: lookupProgramAuth_stdio_def lookupProgramAuth_sse_def try_catch_def
        lookupProgramAuth_stdio_try_def lookupProgramAuth_sse_try_def bind_e_def
        world_programs_key world_programs_accounts world_programs_buffer program_slices
        toBase58_def world_programs_encode text_item_def error_result_def)

section \<open>The instruction built by testProgramIdl\<close>






















section \<open>Missing credentials\<close>

lemma dispatch_testProgramIdl:
  "dispatch Stdio w ''testProgramIdl'' (TestProgramIdlArgs p j n)
     = Inr (testProgramIdl_stdio w p j n)"
  "dispatch Sse w ''testProgramIdl'' (TestProgramIdlArgs p j n)
     = Inr (testProgramIdl_sse w p j n)"
  by (cases "testProgramIdl_stdio_try w p j n"; cases "testProgramIdl_sse_try w p j n";
      simp add: dispatch_def tools_def common_tools_def invoke_def testProgramIdl_stdio_def
        testProgramIdl_sse_def try_catch_def)+

text \<open>
  C7 at the failing input. Without \<open>PAYER_PRIVATE_KEY\<close> the event-stream variant of
  \<open>testProgramIdl\<close> answers \<open>No IDL found for the given program ID.\<close>, which is not an
  error Result and does not name the credential; the stdio variant of the same tool
  answers \<open>Error: PAYER_PRIVATE_KEY not found in environment variables\<close>. Both answers are
  given before any collaborator is called: they are the same in every world.
\<close>

theorem missing_payer_key_testProgramIdl:
  "dispatch Sse (w\<lparr>PAYER_PRIVATE_KEY := None\<rparr>) ''testProgramIdl'' (TestProgramIdlArgs p j n)
     = Inr \<lparr>content = [text_item ''No IDL found for the given program ID.'']\<rparr>
   \<and> dispatch Stdio (w\<lparr>PAYER_PRIVATE_KEY := None\<rparr>) ''testProgramIdl''
       (TestProgramIdlArgs p j n)
     = Inr \<lparr>content = [text_item
         ''Error: PAYER_PRIVATE_KEY not found in environment variables'']\<rparr>"
  by (simp add: dispatch_testProgramIdl testProgramIdl_stdio_def testProgramIdl_sse_def
        try_catch_def testProgramIdl_stdio_try_def testProgramIdl_sse_try_def env_value_def
        truthy_str_def NO_IDL_FOUND_def error_result_def)

text \<open>
  The other tools that need a credential report its absence as an error Result from a
  check of their own, before any collaborator is called: the Result is the same in
  every world.
\<close>

theorem missing_credential_is_reported:
  "dispatch Stdio (w\<lparr>HELIUS_RPC_URL := None\<rparr>) ''getPriorityFee'' (SerializedTransactionArgs t)
     = Inr \<lparr>content = [text_item ''Error: HELIUS_RPC_URL environment variable is not set'']\<rparr>
   \<and> dispatch Sse (w\<lparr>HELIUS_API_KEY := None\<rparr>) ''getPriorityFee'' (SerializedTransactionArgs t)
     = Inr \<lparr>content = [text_item ''Error: HELIUS_API_KEY environment variable is not set'']\<rparr>
   \<and> dispatch v (w\<lparr>DUNE_API_KEY := None\<rparr>) ''getDuneSolanaData'' (DuneArgs p days)
     = Inr \<lparr>content = [text_item
         ''Error: DUNE_API_KEY is not set in the environment variables'']\<rparr>
   \<and> dispatch Sse (w\<lparr>PAYER_PRIVATE_KEY := None\<rparr>) ''buildTransaction''
       (BuildTransactionArgs ixs blockhash)
     = Inr \<lparr>content = [text_item
         ''Error: PAYER_PRIVATE_KEY not found in environment variables'']\<rparr>
   \<and> dispatch Sse (w\<lparr>HELIUS_API_KEY := None\<rparr>) ''analyzeTransaction'' (SignatureArgs s)
     = Inr \<lparr>content = [text_item
         ''Error: HELIUS_API_KEY not found in environment variables'']\<rparr>"
  by (cases v)
    (simp_all add: dispatch_def tools_def common_tools_def sse_only_tools_def invoke_def
      getPriorityFee_stdio_try_def getPriorityFee_sse_try_def getDuneSolanaData_try_def
      buildTransaction_try_def analyzeTransaction_try_def env_value_def truthy_str_def
      error_result_def)

text \<open>
  No throw of a handler leaves dispatch: for every tool name and every input, in every
  world, dispatch returns a Result or one of the two protocol faults.
\<close>

theorem dispatch_never_uncaught:
  "dispatch v w n a \<noteq> Inl (UncaughtError e)"
proof (cases "find (\<lambda>t. tool_name t = n) (tools v)")
  case None
  then show ?thesis
    by (simp add: dispatch_def)
next
  case (Some t)
  then have "t \<in> set (tools v)"
    by (auto simp: find_Some_iff)
  then show ?thesis
    using Some catch_of_tool [of t v w a]
    by (auto simp: dispatch_def invoke_def split: option.splits sum.splits)
qed

end
